theory Spec2Isabelle
  imports Main "HOL-Library.List_Lexorder" "HOL-Library.Char_ord" "HOL-Library.Product_Lexorder"
begin

section \<open>The triple store\<close>

text \<open>
  The program talks to its store through \<open>query\<close> and \<open>update\<close> of the \<open>mu\<close> template
  and writes every request as SPARQL text. The store is modelled as what those requests
  read and write: a set of triples. Subjects and predicates are IRIs, kept as the text the
  program writes (prefixed names such as \<open>gr:hasCurrencyValue\<close> stay prefixed); an object
  is an IRI, a plain string, or a typed literal with its lexical form.

  Some requests of the source name \<open>GRAPH <http://mu.semte.ch/application>\<close> and some
  do not, also for the same resource (the product is inserted with the clause and looked
  up without it). The model has one graph: a request sees the same triples with and
  without the clause.
\<close>

type_synonym uri = string

datatype xsd = XDecimal | XBoolean | XDateTime

datatype obj = Uri uri | Str string | Typed string xsd

type_synonym triple = "uri \<times> uri \<times> obj"

type_synonym graph = "triple set"

text \<open>The \<open>.value\<close> of a binding in a SPARQL JSON result: the IRI or the lexical form.\<close>

fun value_of :: "obj \<Rightarrow> string" where
  "value_of (Uri u) = u"
| "value_of (Str s) = s"
| "value_of (Typed s t) = s"

text \<open>A JSON number that the program only passes on is kept in its printed form.\<close>

type_synonym number = string

text \<open>Printing a natural number, as \<open>"" + product.id\<close> does.\<close>

definition digit :: "nat \<Rightarrow> char" where
  "digit n = ''0123456789'' ! n"

function string_of_nat :: "nat \<Rightarrow> string" where
  "string_of_nat n = (if n < 10 then [digit n] else string_of_nat (n div 10) @ [digit (n mod 10)])"
  by pat_completeness auto
termination
  by (relation "measure id") auto

declare string_of_nat.simps [simp del]

text \<open>The escape helpers of \<open>mu\<close>: each turns a JavaScript value into one RDF term.\<close>

definition sparqlEscapeUri :: "string \<Rightarrow> obj" where
  "sparqlEscapeUri u = Uri u"

definition sparqlEscapeString :: "string \<Rightarrow> obj" where
  "sparqlEscapeString s = Str s"

definition sparqlEscapeDecimal :: "number \<Rightarrow> obj" where
  "sparqlEscapeDecimal n = Typed n XDecimal"

definition sparqlEscapeBool :: "bool \<Rightarrow> obj" where
  "sparqlEscapeBool b = Typed (if b then ''true'' else ''false'') XBoolean"

definition sparqlEscapeDateTime :: "nat \<Rightarrow> obj" where
  "sparqlEscapeDateTime t = Typed (string_of_nat t) XDateTime"

text \<open>The objects of \<open>s p ?o\<close>, and \<open>DELETE { s ?p ?o } WHERE { VALUES ?p { ps } s ?p ?o }\<close>.\<close>

definition objects :: "graph \<Rightarrow> uri \<Rightarrow> uri \<Rightarrow> obj set" where
  "objects g s p = (\<lambda>t. snd (snd t)) ` Set.filter (\<lambda>t. fst t = s \<and> fst (snd t) = p) g"

definition delete_props :: "uri \<Rightarrow> uri list \<Rightarrow> graph \<Rightarrow> graph" where
  "delete_props s ps g = Set.filter (\<lambda>t. \<not> (fst t = s \<and> fst (snd t) \<in> set ps)) g"

section \<open>State and collaborators\<close>

text \<open>
  The state the program works on: the store, the identifiers \<open>uuid()\<close> has handed out
  (a counter: every call returns a new one), the clock behind \<open>new Date()\<close> (it moves
  with every reading) and the files \<open>downloadShareFile\<close> was asked to fetch, as
  (url, file name under /share).
\<close>

record state =
  store :: graph
  next_uuid :: nat
  clock :: nat
  downloads :: "(string \<times> string) list"

definition uuid :: "state \<Rightarrow> string \<times> state" where
  "uuid st = (string_of_nat (next_uuid st), st\<lparr>next_uuid := Suc (next_uuid st)\<rparr>)"

definition new_Date :: "state \<Rightarrow> nat \<times> state" where
  "new_Date st = (clock st, st\<lparr>clock := Suc (clock st)\<rparr>)"

definition insert_data :: "triple list \<Rightarrow> state \<Rightarrow> state" where
  "insert_data ts st = st\<lparr>store := store st \<union> set ts\<rparr>"

section \<open>Payloads\<close>

text \<open>
  The JSON the catalog API returns, with the fields the program reads. A field that may
  be missing is an option; \<open>truthy\<close> is JavaScript's test of such a string (missing and
  empty are both falsy).
\<close>

record money =
  amount :: number

record unitPrice =
  money :: money
  unitOfMeasurement :: string

record consumerPrice =
  measurementUnitPrice :: unitPrice
  orderUnitPrice :: unitPrice

record pricing =
  consumerPrice :: consumerPrice
  measurementUnitVsOrderUnitRatio :: number

record ingredient =
  ingredient_position :: int
  ingredient_name :: string

record allergen =
  allergen_id :: int
  allergen_name :: string

record allergenEntry =
  allergen :: allergen

record supplierInfo =
  supplier_name :: string
  supplier_description :: "string option"
  emailAddress :: string

datatype supplier = SupplierName string | SupplierInfo supplierInfo

record product =
  product_id :: nat
  product_name :: "string option"
  product_supplier :: supplier
  pricing :: pricing
  canBeOrderedAsFractionOfOrderUnit :: bool
  bio :: bool
  product_image :: "string option"
  product_description :: "string option"
  ingredients :: "ingredient list option"
  allergens :: "allergenEntry list option"

record supplierSummary =
  summary_id :: nat
  summary_name :: string

record page =
  content :: "product list"
  last_page :: bool

record options =
  external :: bool
  job :: "string option"

definition truthy :: "string option \<Rightarrow> bool" where
  "truthy x = (case x of None \<Rightarrow> False | Some s \<Rightarrow> s \<noteq> [])"

definition or_empty :: "string option \<Rightarrow> string" where
  "or_empty x = (case x of None \<Rightarrow> [] | Some s \<Rightarrow> s)"

text \<open>
  The collaborators. \<open>productPage\<close>, \<open>catalogPage\<close> and \<open>suppliersPage\<close> are what
  \<open>ensureProductPage\<close>, \<open>ensurePage\<close> and \<open>ensureSuppliersPage\<close> return for the fixed
  store (\<open>None\<close>: the fetch throws); \<open>fetch_ok\<close> says whether the fetch of a file
  succeeds; \<open>mime_getType\<close> and \<open>purify_sanitize\<close> are the two libraries.
  \<open>mime.getType\<close> returns \<open>null\<close> for a path whose extension it does not know: \<open>None\<close>.

  \<open>first_row\<close> and \<open>first_binding\<close> are the store's choice of the first solution of a
  SELECT (what \<open>LIMIT 1\<close> keeps and what \<open>bindings[0]\<close> reads): SPARQL fixes no order,
  so the choice is a parameter, a function of the set of solutions.
\<close>

record env =
  productPage :: "nat \<Rightarrow> product option"
  catalogPage :: "nat \<Rightarrow> page option"
  suppliersPage :: "supplierSummary list option"
  fetch_ok :: "string \<Rightarrow> bool"
  mime_getType :: "string \<Rightarrow> string option"
  purify_sanitize :: "string \<Rightarrow> string"
  first_row :: "string set \<Rightarrow> string"
  first_binding :: "(string \<times> string) set \<Rightarrow> string \<times> string"

definition IGNORED_ORGANIZATIONS :: "string list" where
  "IGNORED_ORGANIZATIONS = [''Pintafish (VLB)'']"

section \<open>Unit converter\<close>

datatype error =
  CouldNotTranslateUnit string
  | NoMatch string
  | FetchFailed string
  | EscapeOfNull string

definition convertLfwUnitToCEFACT :: "string \<Rightarrow> error + string" where
  "convertLfwUnitToCEFACT unit =
     (if unit = ''l'' then Inr ''LTR''
      else if unit = ''kg'' then Inr ''KGM''
      else if unit = ''stk'' then Inr ''C62''
      else Inl (CouldNotTranslateUnit unit))"

section \<open>Resource resolver\<close>

text \<open>
  The five \<open>ensure...\<close> functions of the source share one shape: select the object of
  \<open>owner relation ?x\<close> (\<open>LIMIT 1\<close>); if there is one return its value, otherwise mint a
  URI from a new uuid and insert the link, the type and the uuid.
\<close>

definition ensureResource ::
  "env \<Rightarrow> string \<Rightarrow> uri \<Rightarrow> string \<Rightarrow> uri \<Rightarrow> state \<Rightarrow> string \<times> state" where
  "ensureResource e ownerUri relation prefix rdfType st =
     (let bindings = value_of ` objects (store st) ownerUri relation
      in if bindings \<noteq> {} then (first_row e bindings, st)
         else (let (newUuid, st1) = uuid st;
                   newUri = prefix @ newUuid
               in (newUri,
                   insert_data
                     [(ownerUri, relation, sparqlEscapeUri newUri),
                      (newUri, ''rdf:type'', Uri rdfType),
                      (newUri, ''mu:uuid'', sparqlEscapeString newUuid)] st1)))"

definition ensureSingleUnitPriceResource :: "env \<Rightarrow> string \<Rightarrow> state \<Rightarrow> string \<times> state" where
  "ensureSingleUnitPriceResource e productUri =
     ensureResource e productUri ''veeakker:singleUnitPrice''
       ''http://veeakker.be/price-specifications/'' ''gr:UnitPriceSpecification''"

definition ensureTargetUnitResource :: "env \<Rightarrow> string \<Rightarrow> state \<Rightarrow> string \<times> state" where
  "ensureTargetUnitResource e productUri =
     ensureResource e productUri ''veeakker:targetUnit''
       ''http://veeakker.be/quantitative-values/'' ''gr:QuantitativeValue''"

definition ensureOffering :: "env \<Rightarrow> string \<Rightarrow> state \<Rightarrow> string \<times> state" where
  "ensureOffering e productUri =
     ensureResource e productUri ''veeakker:offerings''
       ''http://veeakker.be/offerings/'' ''gr:Offering''"

definition ensureOfferingTypeAndQuantity :: "env \<Rightarrow> string \<Rightarrow> state \<Rightarrow> string \<times> state" where
  "ensureOfferingTypeAndQuantity e offeringUri =
     ensureResource e offeringUri ''gr:includesObject''
       ''http://veeakker.be/type-and-quantities/'' ''gr:TypeAndQuantityNode''"

definition ensureOfferingUnitPrice :: "env \<Rightarrow> string \<Rightarrow> state \<Rightarrow> string \<times> state" where
  "ensureOfferingUnitPrice e offeringUri =
     ensureResource e offeringUri ''gr:hasPriceSpecification''
       ''http://veeakker.be/price-specifications/'' ''gr:UnitPriceSpecification''"

record offeringResources =
  offering :: string
  typeAndQuantity :: string
  unitPrice :: string

definition ensureOfferingResources :: "env \<Rightarrow> string \<Rightarrow> state \<Rightarrow> offeringResources \<times> state" where
  "ensureOfferingResources e productUri st =
     (let (offering, st1) = ensureOffering e productUri st;
          (typeAndQuantity, st2) = ensureOfferingTypeAndQuantity e offering st1;
          (unitPrice, st3) = ensureOfferingUnitPrice e offering st2
      in (\<lparr>offering = offering, typeAndQuantity = typeAndQuantity, unitPrice = unitPrice\<rparr>, st3))"

section \<open>Pricing\<close>

text \<open>
  An update of the source is one request of several statements. Its text is built
  before it is sent, so a \<open>convertLfwUnitToCEFACT\<close> that throws inside the template
  throws before anything of that request is written.
\<close>

definition delete_insert :: "uri \<Rightarrow> uri list \<Rightarrow> triple list \<Rightarrow> state \<Rightarrow> state" where
  "delete_insert s ps ts st = insert_data ts (st\<lparr>store := delete_props s ps (store st)\<rparr>)"

definition ensureProductDefaultPricing ::
  "env \<Rightarrow> product \<Rightarrow> string \<Rightarrow> state \<Rightarrow> (error + unit) \<times> state" where
  "ensureProductDefaultPricing e product productUri st =
     (let priceSpecification = measurementUnitPrice (consumerPrice (pricing product));
          euros = amount (money priceSpecification);
          unitOfMeasurement = unitOfMeasurement priceSpecification;
          (singleUnitPriceResource, st1) = ensureSingleUnitPriceResource e productUri st;
          (targetUnitResource, st2) = ensureTargetUnitResource e productUri st1
      in case convertLfwUnitToCEFACT unitOfMeasurement of
           Inl err \<Rightarrow> (Inl err, st2)
         | Inr cefact \<Rightarrow>
             (let st3 = delete_insert singleUnitPriceResource
                          [''gr:hasUnitOfMeasurement'', ''gr:hascurrencyValue'']
                          [(singleUnitPriceResource, ''gr:hasUnitOfMeasurement'', sparqlEscapeString cefact),
                           (singleUnitPriceResource, ''gr:hasCurrencyValue'', sparqlEscapeDecimal euros)] st2
              in case convertLfwUnitToCEFACT unitOfMeasurement of
                   Inl err \<Rightarrow> (Inl err, st3)
                 | Inr targetUnitMeasurementUnit \<Rightarrow>
                     (Inr (),
                      delete_insert targetUnitResource
                        [''gr:hasUnitOfMeasurement'', ''gr:hasValue'']
                        [(targetUnitResource, ''gr:hasUnitOfMeasurement'',
                            sparqlEscapeString targetUnitMeasurementUnit),
                         (targetUnitResource, ''gr:hasValue'',
                            sparqlEscapeDecimal (measurementUnitVsOrderUnitRatio (pricing product)))]
                        st3)))"

definition ensureProductOffers ::
  "env \<Rightarrow> product \<Rightarrow> string \<Rightarrow> state \<Rightarrow> (error + offeringResources) \<times> state" where
  "ensureProductOffers e product productUri st =
     (let (offering, st1) = ensureOfferingResources e productUri st;
          euros = amount (money (orderUnitPrice (consumerPrice (pricing product))));
          st2 = delete_insert (unitPrice offering)
                  [''gr:hasUnitOfMeasurement'', ''gr:hasCurrencyValue'']
                  [(unitPrice offering, ''gr:hasUnitOfMeasurement'', Str ''C62''),
                   (unitPrice offering, ''gr:hasCurrencyValue'', sparqlEscapeDecimal euros)] st1
      in case convertLfwUnitToCEFACT
                (unitOfMeasurement (measurementUnitPrice (consumerPrice (pricing product)))) of
           Inl err \<Rightarrow> (Inl err, st2)
         | Inr unit \<Rightarrow>
             (Inr offering,
              delete_insert (typeAndQuantity offering)
                [''gr:amountOfThisGood'', ''gr:hasUnitOfMeasurement'', ''gr:typeOfGood'']
                [(typeAndQuantity offering, ''gr:amountOfThisGood'',
                    sparqlEscapeDecimal (measurementUnitVsOrderUnitRatio (pricing product))),
                 (typeAndQuantity offering, ''gr:hasUnitOfMeasurement'', sparqlEscapeString unit)]
                st2))"

section \<open>Ingredients and allergens\<close>

definition html_list :: "string list \<Rightarrow> string" where
  "html_list xs =
     ''<ul>'' @ concat (map (\<lambda>s. [CHR 0x0A] @ ''  <li>'' @ s @ ''</li>'') xs) @ [CHR 0x0A] @ ''</ul>''"

definition ensureProductIngredients :: "env \<Rightarrow> product \<Rightarrow> string \<Rightarrow> state \<Rightarrow> state" where
  "ensureProductIngredients e product productUri st =
     (let sortedIngredientsList =
            map_option
              (\<lambda>xs. map (purify_sanitize e) (map ingredient_name (sort_key ingredient_position xs)))
              (ingredients product);
          ingredientsString = map_option html_list sortedIngredientsList;
          st1 = st\<lparr>store := delete_props productUri [''food:ingredientListAsText''] (store st)\<rparr>
      in if truthy ingredientsString
         then insert_data
                [(productUri, ''food:ingredientListAsText'', sparqlEscapeString (or_empty ingredientsString))]
                st1
         else st1)"

definition ensureProductAllergens :: "env \<Rightarrow> product \<Rightarrow> string \<Rightarrow> state \<Rightarrow> state" where
  "ensureProductAllergens e product productUri st =
     (let sortedAllergensList =
            map_option
              (\<lambda>xs. map (purify_sanitize e) (map allergen_name (sort_key allergen_id (map allergen xs))))
              (allergens product);
          allergensString = map_option html_list sortedAllergensList;
          st1 = st\<lparr>store := delete_props productUri [''veeakker:allergensAsText''] (store st)\<rparr>
      in if truthy allergensString
         then insert_data
                [(productUri, ''veeakker:allergensAsText'', sparqlEscapeString (or_empty allergensString))]
                st1
         else st1)"

section \<open>Picture\<close>

text \<open>
  A \<open>DELETE { template } WHERE { pattern }\<close> deletes, for every solution of the pattern,
  the template with the solution's values in it; a template triple with a variable the
  solution does not bind, or with a literal as subject or predicate, is left out
  (SPARQL 1.1 Update, 3.1.3). A solution is the list of its bindings.
\<close>

datatype pat = Var string | Const obj

type_synonym solution = "(string \<times> obj) list"

fun subst :: "solution \<Rightarrow> pat \<Rightarrow> obj option" where
  "subst b (Var v) = map_of b v"
| "subst b (Const c) = Some c"

definition instantiate :: "solution \<Rightarrow> pat \<times> pat \<times> pat \<Rightarrow> triple option" where
  "instantiate b tp =
     (case (subst b (fst tp), subst b (fst (snd tp)), subst b (snd (snd tp))) of
        (Some (Uri s), Some (Uri p), Some ob) \<Rightarrow> Some (s, p, ob)
      | _ \<Rightarrow> None)"

definition delete_template :: "pat \<times> pat \<times> pat \<Rightarrow> solution set \<Rightarrow> graph \<Rightarrow> graph" where
  "delete_template tp sols g =
     g - the ` Set.filter (\<lambda>x. x \<noteq> None) ((\<lambda>b. instantiate b tp) ` sols)"

text \<open>
  The solutions of the two patterns of \<open>ensureProductPicture\<close>:
  \<open>VALUES ?p { ps } product veeakker:thumbnail ?thumbnail. ?share nie:dataSource ?thumbnail. ?share ?p ?o\<close>
  and \<open>VALUES ?p { ps } product veeakker:thumbnail ?s. ?s ?p ?o\<close>.
\<close>

definition share_solutions :: "graph \<Rightarrow> uri \<Rightarrow> uri list \<Rightarrow> solution set" where
  "share_solutions g productUri ps =
     (\<Union>thumbnail \<in> objects g productUri ''veeakker:thumbnail''.
        (\<lambda>t. [(''p'', Uri (fst (snd t))), (''thumbnail'', thumbnail),
                (''share'', Uri (fst t)), (''o'', snd (snd t))]) `
          Set.filter (\<lambda>t. fst (snd t) \<in> set ps \<and> (fst t, ''nie:dataSource'', thumbnail) \<in> g) g)"

definition thumbnail_solutions :: "graph \<Rightarrow> uri \<Rightarrow> uri list \<Rightarrow> solution set" where
  "thumbnail_solutions g productUri ps =
     (\<lambda>t. [(''p'', Uri (fst (snd t))), (''s'', Uri (fst t)), (''o'', snd (snd t))]) `
       Set.filter (\<lambda>t. fst (snd t) \<in> set ps \<and> (productUri, ''veeakker:thumbnail'', Uri (fst t)) \<in> g) g"

definition remove_old_picture :: "string \<Rightarrow> graph \<Rightarrow> graph" where
  "remove_old_picture productUri g =
     (let g1 = delete_template (Var ''share'', Var ''p'', Var ''o'')
                 (share_solutions g productUri
                    [''dct:source'', ''nfo:fileName'', ''dct:format'', ''nfo:fileSize'',
                     ''dbpedia:fileExtension'', ''dct:created'']) g;
          g2 = delete_template (Var ''file'', Var ''p'', Var ''o'')
                 (thumbnail_solutions g1 productUri
                    [''nfo:fileName'', ''dct:format'', ''nfo:fileSize'',
                     ''dbpedia:fileExtension'', ''dct:created'']) g1
      in delete_props productUri [''veeakker:thumbnail''] g2)"

text \<open>\<open>s.match(/[^c...]+$/)\<close>: the longest run of allowed characters at the end; \<open>null\<close> when empty.\<close>

definition match_tail :: "(char \<Rightarrow> bool) \<Rightarrow> string \<Rightarrow> string option" where
  "match_tail allowed s =
     (let m = rev (takeWhile allowed (rev s)) in if m = [] then None else Some m)"

definition downloadShareFile :: "env \<Rightarrow> string \<Rightarrow> string \<Rightarrow> state \<Rightarrow> (error + unit) \<times> state" where
  "downloadShareFile e url filename st =
     (let st1 = st\<lparr>downloads := downloads st @ [(url, filename)]\<rparr>
      in if fetch_ok e url then (Inr (), st1) else (Inl (FetchFailed url), st1))"

text \<open>
  The text of the last update of \<open>ensureProductPicture\<close> is built after the download. It
  escapes the mime type with \<open>sparqlEscapeString\<close>, which throws on \<open>null\<close>: for a file
  whose extension \<open>mime.getType\<close> does not know the function throws there, after the old
  picture was removed and the file was downloaded, and inserts nothing.
\<close>

definition currentPictureIsCorrect :: "graph \<Rightarrow> string \<Rightarrow> string option \<Rightarrow> bool" where
  "currentPictureIsCorrect g productUri img =
     (truthy img \<and>
      (\<exists>picture \<in> objects g productUri ''veeakker:thumbnail''.
         case picture of
           Uri pic \<Rightarrow> (pic, ''dct:source'', sparqlEscapeUri (or_empty img)) \<in> g
         | _ \<Rightarrow> False))"

definition ensureProductPicture ::
  "env \<Rightarrow> product \<Rightarrow> string \<Rightarrow> state \<Rightarrow> (error + unit) \<times> state" where
  "ensureProductPicture e product productUri st =
     (if currentPictureIsCorrect (store st) productUri (product_image product) then (Inr (), st)
      else
        (let st1 = st\<lparr>store := remove_old_picture productUri (store st)\<rparr>
         in if truthy (product_image product) then
              (let img = or_empty (product_image product) in
               case match_tail (\<lambda>c. c \<noteq> CHR ''.'') img of
                 None \<Rightarrow> (Inl (NoMatch img), st1)
               | Some extension \<Rightarrow>
                  (case match_tail (\<lambda>c. c \<noteq> CHR ''/'' \<and> c \<noteq> CHR ''>'') img of
                     None \<Rightarrow> (Inl (NoMatch img), st1)
                   | Some fileName \<Rightarrow>
                      (let (shareResourceUuid, st2) = uuid st1;
                           shareFileName = shareResourceUuid @ ''.'' @ extension;
                           shareResourceUri = ''share://'' @ shareFileName;
                           (fileResourceUuid, st3) = uuid st2;
                           fileResourceUri = ''http://veeakker.be/files/'' @ shareResourceUuid;
                           (creation, st4) = new_Date st3
                       in case downloadShareFile e img shareFileName st4 of
                            (Inl err, st5) \<Rightarrow> (Inl err, st5)
                          | (Inr _, st5) \<Rightarrow>
                             (case mime_getType e (''/share/'' @ shareFileName) of
                                None \<Rightarrow> (Inl (EscapeOfNull ''mimetype''), st5)
                              | Some mimetype \<Rightarrow>
                                 (Inr (),
                                  insert_data
                                    [(productUri, ''veeakker:thumbnail'', sparqlEscapeUri fileResourceUri),
                                     (fileResourceUri, ''rdf:type'', Uri ''nfo:FileDataObject''),
                                     (fileResourceUri, ''dct:source'', sparqlEscapeUri img),
                                     (fileResourceUri, ''mu:uuid'', sparqlEscapeString fileResourceUuid),
                                     (fileResourceUri, ''nfo:fileName'', sparqlEscapeString fileName),
                                     (fileResourceUri, ''dct:format'', sparqlEscapeString mimetype),
                                     (fileResourceUri, ''dbpedia:fileExtension'', sparqlEscapeString extension),
                                     (fileResourceUri, ''dct:created'', sparqlEscapeDateTime creation),
                                     (shareResourceUri, ''rdf:type'', Uri ''nfo:FileDataObject''),
                                     (shareResourceUri, ''mu:uuid'', sparqlEscapeString shareResourceUuid),
                                     (shareResourceUri, ''nie:dataSource'', sparqlEscapeUri fileResourceUri),
                                     (shareResourceUri, ''nfo:fileName'', sparqlEscapeString fileName),
                                     (shareResourceUri, ''dct:format'', sparqlEscapeString mimetype),
                                     (shareResourceUri, ''dbpedia:fileExtension'', sparqlEscapeString extension),
                                     (shareResourceUri, ''dct:created'', sparqlEscapeDateTime creation)]
                                    st5)))))
            else (Inr (), st1)))"

section \<open>Product identity and base information\<close>

text \<open>
  The solutions of the lookup of \<open>ensureProductMeta\<close>, as pairs
  (\<open>?productUri\<close>, \<open>?admsIdentifier\<close>): a \<open>schema:Product\<close> with an \<open>adms:Identifier\<close>
  whose notation is the given string and whose creator is the source system.
\<close>

definition product_bindings :: "graph \<Rightarrow> string \<Rightarrow> (string \<times> string) set" where
  "product_bindings g notation =
     (\<lambda>t. (fst t, value_of (snd (snd t)))) `
       Set.filter
         (\<lambda>t. fst (snd t) = ''adms:identifier'' \<and>
              (fst t, ''rdf:type'', Uri ''schema:Product'') \<in> g \<and>
              (case snd (snd t) of
                 Uri i \<Rightarrow> (i, ''rdf:type'', Uri ''adms:Identifier'') \<in> g \<and>
                          (i, ''skos:notation'', Str notation) \<in> g \<and>
                          (i, ''dct:creator'', Uri ''https://localfoodworks.eu/'') \<in> g
               | _ \<Rightarrow> False)) g"

record productMeta =
  meta_productUri :: string
  meta_admsIdentifier :: string

definition ensureProductMeta :: "env \<Rightarrow> product \<Rightarrow> state \<Rightarrow> productMeta \<times> state" where
  "ensureProductMeta e product st =
     (let bindings = product_bindings (store st) (string_of_nat (product_id product))
      in if bindings \<noteq> {}
         then (\<lparr>meta_productUri = fst (first_binding e bindings),
                 meta_admsIdentifier = snd (first_binding e bindings)\<rparr>, st)
         else (let (productUuid, st1) = uuid st;
                   productUri = ''http://veeakker.be/products/'' @ productUuid;
                   (identifierUuid, st2) = uuid st1;
                   admsIdentifier = ''http://data.redpencil.io/identifiers/'' @ identifierUuid
               in (\<lparr>meta_productUri = productUri, meta_admsIdentifier = admsIdentifier\<rparr>,
                   insert_data
                     [(productUri, ''rdf:type'', Uri ''schema:Product''),
                      (productUri, ''mu:uuid'', sparqlEscapeString productUuid),
                      (productUri, ''adms:identifier'', sparqlEscapeUri admsIdentifier),
                      (admsIdentifier, ''rdf:type'', Uri ''adms:Identifier''),
                      (admsIdentifier, ''mu:uuid'', sparqlEscapeString identifierUuid),
                      (admsIdentifier, ''skos:notation'',
                         sparqlEscapeString (string_of_nat (product_id product))),
                      (admsIdentifier, ''dct:creator'', Uri ''https://localfoodworks.eu/''),
                      (admsIdentifier, ''dct:title'',
                         sparqlEscapeString (''LFW '' @ string_of_nat (product_id product)))]
                     st2)))"

definition ensureProductJobConnection :: "string \<Rightarrow> string \<Rightarrow> state \<Rightarrow> state" where
  "ensureProductJobConnection productUri jobUri st =
     insert_data [(productUri, ''prov:wasGeneratedBy'', sparqlEscapeUri jobUri)] st"

definition ensureBaseProductInfo :: "product \<Rightarrow> string \<Rightarrow> state \<Rightarrow> state" where
  "ensureBaseProductInfo product productUri st =
     delete_insert productUri
       [''dct:title'', ''dct:description'', ''veeakker:hasLabel'', ''veeakker:plu'',
        ''veeakker:sortIndex'', ''veeakker:lfwProductCanBeOrderedByFractionOfOrderUnit'']
       ([(productUri, ''dct:title'', sparqlEscapeString (or_empty (product_name product)))] @
        (if truthy (product_description product)
         then [(productUri, ''dct:description'',
                  sparqlEscapeString (or_empty (product_description product)))]
         else []) @
        [(productUri, ''veeakker:hasLabel'', Uri ''http://veeakker.be/labels/lfw'')] @
        (if bio product
         then [(productUri, ''veeakker:hasLabel'', Uri ''http://veeakker.be/labels/bio'')]
         else []) @
        [(productUri, ''veeakker:plu'',
            sparqlEscapeDecimal (string_of_nat (1000000 + product_id product))),
         (productUri, ''veeakker:sortIndex'',
            sparqlEscapeDecimal (string_of_nat (1000000 + product_id product))),
         (productUri, ''veeakker:lfwProductCanBeOrderedByFractionOfOrderUnit'',
            sparqlEscapeBool (canBeOrderedAsFractionOfOrderUnit product))])
       st"

section \<open>Suppliers\<close>

text \<open>
  The subjects \<open>?s\<close> of \<open>?s a gr:BusinessEntity; adms:identifier ?i. ?i dct:creator
  <https://localfoodworks.eu/>; skos:notation notation\<close>.
\<close>

definition supplier_subjects :: "graph \<Rightarrow> string \<Rightarrow> uri set" where
  "supplier_subjects g notation =
     fst `
       Set.filter
         (\<lambda>t. fst (snd t) = ''adms:identifier'' \<and>
              (fst t, ''rdf:type'', Uri ''gr:BusinessEntity'') \<in> g \<and>
              (case snd (snd t) of
                 Uri i \<Rightarrow> (i, ''dct:creator'', Uri ''https://localfoodworks.eu/'') \<in> g \<and>
                          (i, ''skos:notation'', Str notation) \<in> g
               | _ \<Rightarrow> False)) g"

fun ensureSuppliers :: "supplierSummary list \<Rightarrow> state \<Rightarrow> state" where
  "ensureSuppliers [] st = st"
| "ensureSuppliers (supplier # suppliers) st =
     (let hasSupplier = (supplier_subjects (store st) (string_of_nat (summary_id supplier)) \<noteq> {})
      in if \<not> hasSupplier
         then (let (supplierUuid, st1) = uuid st;
                   supplierUri = ''http://veeakker.be/suppliers/'' @ supplierUuid;
                   (identifierUuid, st2) = uuid st1;
                   identifierUri = ''http://data.redpencil.io/identifiers/'' @ identifierUuid
               in ensureSuppliers suppliers
                    (insert_data
                       [(supplierUri, ''rdf:type'', Uri ''gr:BusinessEntity''),
                        (supplierUri, ''mu:uuid'', sparqlEscapeString supplierUuid),
                        (supplierUri, ''adms:identifier'', sparqlEscapeUri identifierUri),
                        (identifierUri, ''rdf:type'', Uri ''adms:Identifier''),
                        (identifierUri, ''mu:uuid'', sparqlEscapeString identifierUuid),
                        (identifierUri, ''skos:notation'',
                           sparqlEscapeString (string_of_nat (summary_id supplier))),
                        (identifierUri, ''dct:creator'', Uri ''https://localfoodworks.eu/''),
                        (identifierUri, ''dct:title'',
                           sparqlEscapeString
                             (''LFW Supplier ID '' @ string_of_nat (summary_id supplier)))]
                       st2))
         else ensureSuppliers suppliers st)"

text \<open>
  The bulk update of the names: for every row of the \<open>VALUES\<close> list and every supplier
  with the row's notation, delete the names it has and insert the row's name. Both sets
  are taken on the store as it is before the update.
\<close>

definition updateSupplierNames :: "supplierSummary list \<Rightarrow> graph \<Rightarrow> graph" where
  "updateSupplierNames suppliers g =
     (g - (\<Union>supplier \<in> set suppliers.
             \<Union>s \<in> supplier_subjects g (string_of_nat (summary_id supplier)).
               (\<lambda>oldName. (s, ''gr:name'', oldName)) ` objects g s ''gr:name''))
     \<union> (\<Union>supplier \<in> set suppliers.
           (\<lambda>s. (s, ''gr:name'', sparqlEscapeString (summary_name supplier))) `
             supplier_subjects g (string_of_nat (summary_id supplier)))"

definition loadSuppliers :: "env \<Rightarrow> state \<Rightarrow> (error + unit) \<times> state" where
  "loadSuppliers e st =
     (case suppliersPage e of
        None \<Rightarrow> (Inl (FetchFailed ''suppliers''), st)
      | Some suppliers \<Rightarrow>
          (let st1 = ensureSuppliers suppliers st
           in (Inr (), st1\<lparr>store := updateSupplierNames suppliers (store st1)\<rparr>)))"

definition replaceAll_newline :: "string \<Rightarrow> string" where
  "replaceAll_newline s = concat (map (\<lambda>c. if c = CHR 0x0A then ''<br />'' else [c]) s)"

definition loadProductSupplier :: "env \<Rightarrow> string \<Rightarrow> supplierInfo \<Rightarrow> state \<Rightarrow> state" where
  "loadProductSupplier e offeringUri supplier st =
     (let supplierInfos =
            fst ` Set.filter
                    (\<lambda>t. fst (snd t) = ''gr:name'' \<and>
                         snd (snd t) = sparqlEscapeString (supplier_name supplier))
                    (store st);
          supplierUri = (if supplierInfos \<noteq> {} then Some (first_row e supplierInfos) else None);
          description =
            purify_sanitize e (replaceAll_newline (or_empty (supplier_description supplier)))
      in if truthy supplierUri
         then delete_insert (or_empty supplierUri) [''schema:email'', ''dct:description'']
                [(or_empty supplierUri, ''schema:email'', sparqlEscapeString (emailAddress supplier)),
                 (or_empty supplierUri, ''dct:description'', sparqlEscapeString description),
                 (or_empty supplierUri, ''gr:offers'', sparqlEscapeUri offeringUri)]
                st
         else st)"

section \<open>Entity reconciler and orchestrator\<close>

definition ignored :: "supplier \<Rightarrow> bool" where
  "ignored s = (case s of SupplierName n \<Rightarrow> n \<in> set IGNORED_ORGANIZATIONS | SupplierInfo i \<Rightarrow> False)"

definition loadProduct :: "env \<Rightarrow> product \<Rightarrow> options \<Rightarrow> state \<Rightarrow> (error + unit) \<times> state" where
  "loadProduct e listed opts st =
     (case (if external opts then productPage e (product_id listed) else Some listed) of
        None \<Rightarrow> (Inl (FetchFailed ''product''), st)
      | Some product \<Rightarrow>
         (let (meta, st1) = ensureProductMeta e product st
          in if \<not> ignored (product_supplier product) then
               (let st2 = (if truthy (job opts)
                           then ensureProductJobConnection (meta_productUri meta) (or_empty (job opts)) st1
                           else st1);
                    st3 = ensureBaseProductInfo product (meta_productUri meta) st2
                in case ensureProductDefaultPricing e product (meta_productUri meta) st3 of
                     (Inl err, st4) \<Rightarrow> (Inl err, st4)
                   | (Inr _, st4) \<Rightarrow>
                      (case ensureProductOffers e product (meta_productUri meta) st4 of
                         (Inl err, st5) \<Rightarrow> (Inl err, st5)
                       | (Inr offeringResources, st5) \<Rightarrow>
                          (let st6 = ensureProductIngredients e product (meta_productUri meta) st5;
                               st7 = ensureProductAllergens e product (meta_productUri meta) st6
                           in case ensureProductPicture e product (meta_productUri meta) st7 of
                                (Inl err, st8) \<Rightarrow> (Inl err, st8)
                              | (Inr _, st8) \<Rightarrow>
                                 (case product_supplier product of
                                    SupplierInfo info \<Rightarrow>
                                      (Inr (), loadProductSupplier e (offering offeringResources) info st8)
                                  | SupplierName n \<Rightarrow> (Inr (), st8)))))
             else (Inr (), st1)))"

fun loadProducts :: "env \<Rightarrow> product list \<Rightarrow> options \<Rightarrow> state \<Rightarrow> (error + unit) \<times> state" where
  "loadProducts e [] opts st = (Inr (), st)"
| "loadProducts e (product # products) opts st =
     (case loadProduct e product opts st of
        (Inl err, st1) \<Rightarrow> (Inl err, st1)
      | (Inr _, st1) \<Rightarrow> loadProducts e products opts st1)"

text \<open>
  \<open>loadPages\<close> walks the pages from 0 until one has \<open>last\<close> set. A catalog in which no
  page has it never ends the loop: the result is then \<open>None\<close>.
\<close>

partial_function (option) loadPagesFrom ::
  "env \<Rightarrow> string option \<Rightarrow> nat \<Rightarrow> state \<Rightarrow> ((error + unit) \<times> state) option" where
  "loadPagesFrom e jobUri counter st =
     (case catalogPage e counter of
        None \<Rightarrow> Some (Inl (FetchFailed ''page''), st)
      | Some pg \<Rightarrow>
         (case loadProducts e (content pg) \<lparr>external = True, job = jobUri\<rparr> st of
            (Inl err, st1) \<Rightarrow> Some (Inl err, st1)
          | (Inr _, st1) \<Rightarrow>
              if last_page pg = False then loadPagesFrom e jobUri (counter + 1) st1
              else Some (Inr (), st1)))"

definition loadPages :: "env \<Rightarrow> string option \<Rightarrow> state \<Rightarrow> ((error + unit) \<times> state) option" where
  "loadPages e jobUri st = loadPagesFrom e jobUri 0 st"

section \<open>Job controller\<close>

definition createLoadJob :: "state \<Rightarrow> string \<times> state" where
  "createLoadJob st =
     (let (lfwFetchJobUuid, st1) = uuid st;
          lfwFetchJobUri = ''http://veeakker.be/lfw-jobs/'' @ lfwFetchJobUuid;
          (now, st2) = new_Date st1
      in (lfwFetchJobUri,
          insert_data
            [(lfwFetchJobUri, ''rdf:type'', Uri ''veeakker:LfwFetchJob''),
             (lfwFetchJobUri, ''mu:uuid'', sparqlEscapeString lfwFetchJobUuid),
             (lfwFetchJobUri, ''dct:created'', sparqlEscapeDateTime now)] st2))"

definition startJob :: "string \<Rightarrow> state \<Rightarrow> state" where
  "startJob jobUri st =
     insert_data [(jobUri, ''adms:status'', Uri ''http://veeakker.be/lfw-job-statusses/running'')]
       (st\<lparr>store := delete_props jobUri [''adms:status''] (store st)\<rparr>)"

definition finishJob :: "string \<Rightarrow> state \<Rightarrow> state" where
  "finishJob jobUri st =
     insert_data [(jobUri, ''adms:status'', Uri ''http://veeakker.be/lfw-job-statusses/finished'')]
       (st\<lparr>store := delete_props jobUri [''adms:status''] (store st)\<rparr>)"

definition errorJob :: "string \<Rightarrow> state \<Rightarrow> state" where
  "errorJob jobUri st =
     insert_data [(jobUri, ''adms:status'', Uri ''http://veeakker.be/lfw-job-statusses/error'')]
       (st\<lparr>store := delete_props jobUri [''adms:status''] (store st)\<rparr>)"

section \<open>The harvest endpoint\<close>

text \<open>\<open>isAdminUser\<close>: \<open>ASK { session session:account/^foaf:account/veeakker:role veeakker:Administrator }\<close>.\<close>

definition isAdminUser :: "graph \<Rightarrow> string \<Rightarrow> bool" where
  "isAdminUser g sessionId =
     (\<exists>account \<in> objects g sessionId ''session:account''.
        \<exists>t \<in> g. fst (snd t) = ''foaf:account'' \<and> snd (snd t) = account \<and>
                 (fst t, ''veeakker:role'', Uri ''veeakker:Administrator'') \<in> g)"

datatype response = Response nat string

text \<open>The body of the \<open>try\<close> block of \<open>POST /harvest\<close>, up to its first throw.\<close>

definition harvest_try :: "env \<Rightarrow> string \<Rightarrow> state \<Rightarrow> ((error + unit) \<times> state) option" where
  "harvest_try e jobUri st =
     (case loadSuppliers e (startJob jobUri st) of
        (Inl err, st1) \<Rightarrow> Some (Inl err, st1)
      | (Inr _, st1) \<Rightarrow>
          (case loadPages e (Some jobUri) st1 of
             None \<Rightarrow> None
           | Some (Inl err, st2) \<Rightarrow> Some (Inl err, st2)
           | Some (Inr _, st2) \<Rightarrow> Some (Inr (), finishJob jobUri st2)))"

definition harvest :: "env \<Rightarrow> string \<Rightarrow> state \<Rightarrow> (response \<times> state) option" where
  "harvest e sessionId st =
     (if isAdminUser (store st) sessionId then
        (let (jobUri, st1) = createLoadJob st
         in case harvest_try e jobUri st1 of
              None \<Rightarrow> None
            | Some (Inr _, st2) \<Rightarrow> Some (Response 200 ''Harvest successful'', st2)
            | Some (Inl err, st2) \<Rightarrow> Some (Response 500 ''Failed to harvest'', errorJob jobUri st2))
      else Some (Response 500 ''Missing access rights'', st))"

section \<open>Predicates used in the statements\<close>



text \<open>
  The predicates that carry a price, a quantity or a unit, and the links of the offering;
  and the predicates \<open>loadProduct\<close> writes up to the point where the unit is converted.
\<close>

definition pricing_predicates :: "uri list" where
  "pricing_predicates =
     [''gr:hasUnitOfMeasurement'', ''gr:hasCurrencyValue'', ''gr:hascurrencyValue'', ''gr:hasValue'',
      ''gr:amountOfThisGood'', ''gr:typeOfGood'', ''veeakker:offerings'', ''gr:includesObject'',
      ''gr:hasPriceSpecification'']"

text \<open>The URIs that \<open>loadProduct\<close> can mint, up to the pricing step, from the uuid counter \<open>n\<close> on.\<close>

definition minted_from :: "nat \<Rightarrow> uri set" where
  "minted_from n =
     {prefix @ string_of_nat k | prefix k.
        prefix \<in> set [''http://veeakker.be/products/'', ''http://data.redpencil.io/identifiers/'',
                      ''http://veeakker.be/price-specifications/'',
                      ''http://veeakker.be/quantitative-values/''] \<and> n \<le> k}"

definition resource_predicates :: "uri list" where
  "resource_predicates =
     [''veeakker:singleUnitPrice'', ''veeakker:targetUnit'', ''rdf:type'', ''mu:uuid'']"

definition written_up_to_pricing :: "uri list" where
  "written_up_to_pricing =
     [''rdf:type'', ''mu:uuid'', ''adms:identifier'', ''skos:notation'', ''dct:creator'', ''dct:title'',
      ''prov:wasGeneratedBy'', ''dct:description'', ''veeakker:hasLabel'', ''veeakker:plu'',
      ''veeakker:sortIndex'', ''veeakker:lfwProductCanBeOrderedByFractionOfOrderUnit'',
      ''veeakker:singleUnitPrice'', ''veeakker:targetUnit'']"

section \<open>Example inputs\<close>

definition example_pricing :: "string \<Rightarrow> pricing" where
  "example_pricing unit =
     \<lparr>consumerPrice =
        \<lparr>measurementUnitPrice = \<lparr>money = \<lparr>amount = ''10.37''\<rparr>, unitOfMeasurement = unit\<rparr>,
         orderUnitPrice = \<lparr>money = \<lparr>amount = ''10.37''\<rparr>, unitOfMeasurement = ''stk''\<rparr>\<rparr>,
      measurementUnitVsOrderUnitRatio = ''1''\<rparr>"

definition example_product :: "string \<Rightarrow> supplier \<Rightarrow> string option \<Rightarrow> product" where
  "example_product unit splr img =
     \<lparr>product_id = 181, product_name = Some ''5 pannenkoeken'', product_supplier = splr,
      pricing = example_pricing unit, canBeOrderedAsFractionOfOrderUnit = False, bio = False,
      product_image = img, product_description = None, ingredients = None, allergens = None\<rparr>"

definition example_env :: "product \<Rightarrow> env" where
  "example_env detail =
     \<lparr>productPage = (\<lambda>n. if n = product_id detail then Some detail else None),
      catalogPage = (\<lambda>n. if n = 0 then Some \<lparr>content = [detail], last_page = True\<rparr> else None),
      suppliersPage = Some [],
      fetch_ok = (\<lambda>url. True),
      mime_getType =
        (\<lambda>path. if match_tail (\<lambda>c. c \<noteq> CHR ''.'') path = Some ''png''
                then Some ''image/png'' else None),
      purify_sanitize = (\<lambda>s. s),
      first_row = Min,
      first_binding = Min\<rparr>"

definition empty_state :: state where
  "empty_state = \<lparr>store = {}, next_uuid = 0, clock = 0, downloads = []\<rparr>"

definition pintafish :: supplierInfo where
  "pintafish = \<lparr>supplier_name = ''Pintafish (VLB)'', supplier_description = None,
                emailAddress = ''info@pintafish.example''\<rparr>"

definition priced_state :: state where
  "priced_state =
     \<lparr>store =
        {(''http://veeakker.be/products/0'', ''veeakker:singleUnitPrice'',
            Uri ''http://veeakker.be/price-specifications/2''),
         (''http://veeakker.be/price-specifications/2'', ''gr:hasCurrencyValue'',
            Typed ''9.99'' XDecimal)},
      next_uuid = 3, clock = 0, downloads = []\<rparr>"

definition admin_state :: state where
  "admin_state =
     \<lparr>store =
        {(''http://mu.semte.ch/sessions/1'', ''session:account'', Uri ''http://veeakker.be/accounts/1''),
         (''http://veeakker.be/people/1'', ''foaf:account'', Uri ''http://veeakker.be/accounts/1''),
         (''http://veeakker.be/people/1'', ''veeakker:role'', Uri ''veeakker:Administrator'')},
      next_uuid = 0, clock = 0, downloads = []\<rparr>"

definition pictured_state :: state where
  "pictured_state =
     \<lparr>store =
        {(''http://veeakker.be/products/0'', ''veeakker:thumbnail'', Uri ''http://veeakker.be/files/5''),
         (''http://veeakker.be/files/5'', ''dct:source'', Uri ''https://img.example/181/old.png''),
         (''http://veeakker.be/files/5'', ''nfo:fileName'', Str ''old.png''),
         (''share://5.png'', ''nie:dataSource'', Uri ''http://veeakker.be/files/5''),
         (''share://5.png'', ''nfo:fileName'', Str ''old.png'')},
      next_uuid = 7, clock = 3, downloads = []\<rparr>"

section \<open>Basic facts about the store operations\<close>

lemma objects_iff [simp]: "ob \<in> objects g s p \<longleftrightarrow> (s, p, ob) \<in> g"
  by (force simp: objects_def)

lemma delete_props_iff [simp]:
  "t \<in> delete_props s ps g \<longleftrightarrow> t \<in> g \<and> \<not> (fst t = s \<and> fst (snd t) \<in> set ps)"
  by (simp add: delete_props_def)

lemma store_insert_data [simp]: "store (insert_data ts st) = store st \<union> set ts"
  by (simp add: insert_data_def)

lemma store_delete_insert [simp]:
  "store (delete_insert s ps ts st) = delete_props s ps (store st) \<union> set ts"
  by (simp add: delete_insert_def)

lemma fields_insert_data [simp]:
  "next_uuid (insert_data ts st) = next_uuid st"
  "clock (insert_data ts st) = clock st"
  "downloads (insert_data ts st) = downloads st"
  by (simp_all add: insert_data_def)

lemma fields_delete_insert [simp]:
  "next_uuid (delete_insert s ps ts st) = next_uuid st"
  "clock (delete_insert s ps ts st) = clock st"
  "downloads (delete_insert s ps ts st) = downloads st"
  by (simp_all add: delete_insert_def)

lemma objects_eq_empty_iff: "objects g s p = {} \<longleftrightarrow> (\<forall>ob. (s, p, ob) \<notin> g)"
  by (auto simp: objects_def)

lemma string_of_nat_digit [simp]: "n < 10 \<Longrightarrow> string_of_nat n = [digit n]"
  by (simp add: string_of_nat.simps)

lemma ensureResource_mono:
  "t \<in> store st \<Longrightarrow> t \<in> store (snd (ensureResource e ownerUri relation prefix rdfType st))"
  by (simp add: ensureResource_def uuid_def Let_def split: prod.splits)

lemma ensureResource_frame:
  "p \<noteq> relation \<Longrightarrow> p \<noteq> ''rdf:type'' \<Longrightarrow> p \<noteq> ''mu:uuid'' \<Longrightarrow>
   (s, p, ob) \<in> store (snd (ensureResource e ownerUri relation prefix rdfType st)) \<longleftrightarrow>
   (s, p, ob) \<in> store st"
  by (simp add: ensureResource_def uuid_def Let_def split: prod.splits)



lemma product_bindings_empty [simp]: "product_bindings {} n = {}"
  by (simp add: product_bindings_def)

lemma delete_template_iff:
  "t \<in> delete_template tp sols g \<longleftrightarrow> t \<in> g \<and> \<not> (\<exists>b \<in> sols. instantiate b tp = Some t)"
proof -
  have "the ` Set.filter (\<lambda>x. x \<noteq> None) ((\<lambda>b. instantiate b tp) ` sols) =
          {t. \<exists>b \<in> sols. instantiate b tp = Some t}" (is "?A = ?B")
  proof (rule set_eqI)
    fix x
    show "x \<in> ?A \<longleftrightarrow> x \<in> ?B"
    proof
      assume "x \<in> ?A"
      then obtain b where "b \<in> sols" "instantiate b tp \<noteq> None" "x = the (instantiate b tp)"
        by auto
      then show "x \<in> ?B" by auto
    next
      assume "x \<in> ?B"
      then obtain b where b: "b \<in> sols" "instantiate b tp = Some x" by auto
      then have "Some x \<in> (\<lambda>b. instantiate b tp) ` sols"
        by (metis image_eqI)
      then have "Some x \<in> Set.filter (\<lambda>x. x \<noteq> None) ((\<lambda>b. instantiate b tp) ` sols)"
        by (cases x) simp
      then show "x \<in> ?A" by (metis image_eqI option.sel)
    qed
  qed
  then show ?thesis by (simp add: delete_template_def)
qed

lemma delete_template_unbound:
  assumes "\<And>b. b \<in> sols \<Longrightarrow> map_of b v = None"
  shows "delete_template (Var v, p, ob) sols g = g"
proof -
  have "\<And>b t. b \<in> sols \<Longrightarrow> instantiate b (Var v, p, ob) \<noteq> Some t"
    using assms by (simp add: instantiate_def)
  then show ?thesis by (auto simp: delete_template_iff)
qed

lemma thumbnail_solutions_file: "b \<in> thumbnail_solutions g productUri ps \<Longrightarrow> map_of b ''file'' = None"
  unfolding thumbnail_solutions_def by (erule imageE) simp

lemma instantiate_share:
  "instantiate [(''p'', Uri p), (''thumbnail'', th), (''share'', Uri s), (''o'', ob)]
     (Var ''share'', Var ''p'', Var ''o'') = Some (s, p, ob)"
  by (simp add: instantiate_def)


lemma share_solutions_iff:
  "(\<exists>b \<in> share_solutions g productUri ps. instantiate b (Var ''share'', Var ''p'', Var ''o'') = Some t) \<longleftrightarrow>
   t \<in> g \<and> fst (snd t) \<in> set ps \<and>
   (\<exists>thumbnail. (productUri, ''veeakker:thumbnail'', thumbnail) \<in> g \<and>
                 (fst t, ''nie:dataSource'', thumbnail) \<in> g)" (is "?L \<longleftrightarrow> ?R")
proof
  assume ?L
  then obtain b where b: "b \<in> share_solutions g productUri ps"
      "instantiate b (Var ''share'', Var ''p'', Var ''o'') = Some t" by blast
  from b(1) obtain th u where u: "(productUri, ''veeakker:thumbnail'', th) \<in> g" "u \<in> g"
      "fst (snd u) \<in> set ps" "(fst u, ''nie:dataSource'', th) \<in> g"
      "b = [(''p'', Uri (fst (snd u))), (''thumbnail'', th), (''share'', Uri (fst u)), (''o'', snd (snd u))]"
    unfolding share_solutions_def by auto
  have "t = u" using b(2) u(5) by (simp add: instantiate_share)
  then show ?R using u by blast
next
  assume r: ?R
  then obtain th where th: "(productUri, ''veeakker:thumbnail'', th) \<in> g"
      "(fst t, ''nie:dataSource'', th) \<in> g" by blast
  let ?b = "[(''p'', Uri (fst (snd t))), (''thumbnail'', th), (''share'', Uri (fst t)), (''o'', snd (snd t))]"
  have "?b \<in> share_solutions g productUri ps"
    unfolding share_solutions_def using r th by (intro UN_I[where a = th]) auto
  moreover have "instantiate ?b (Var ''share'', Var ''p'', Var ''o'') = Some t"
    by (simp add: instantiate_share)
  ultimately show ?L by blast
qed

lemma remove_old_picture_iff:
  "t \<in> remove_old_picture productUri g \<longleftrightarrow>
     t \<in> g \<and>
     \<not> (fst (snd t) \<in> set [''dct:source'', ''nfo:fileName'', ''dct:format'', ''nfo:fileSize'',
                         ''dbpedia:fileExtension'', ''dct:created''] \<and>
        (\<exists>thumbnail. (productUri, ''veeakker:thumbnail'', thumbnail) \<in> g \<and>
                      (fst t, ''nie:dataSource'', thumbnail) \<in> g)) \<and>
     \<not> (fst t = productUri \<and> fst (snd t) = ''veeakker:thumbnail'')"
proof -
  have "remove_old_picture productUri g =
          delete_props productUri [''veeakker:thumbnail'']
            (delete_template (Var ''share'', Var ''p'', Var ''o'')
                 (share_solutions g productUri
                    [''dct:source'', ''nfo:fileName'', ''dct:format'', ''nfo:fileSize'',
                     ''dbpedia:fileExtension'', ''dct:created'']) g)"
    unfolding remove_old_picture_def Let_def
    by (subst delete_template_unbound[where v = "''file''"]) (simp_all add: thumbnail_solutions_file)
  then show ?thesis
    by (simp only: delete_props_iff delete_template_iff share_solutions_iff) auto
qed

lemma pricing_predicates_not_written:
  "p \<in> set pricing_predicates \<Longrightarrow> p \<notin> set written_up_to_pricing"
  unfolding pricing_predicates_def written_up_to_pricing_def
  by (simp, elim disjE; simp)

lemma ensureProductMeta_frame:
  "p \<notin> set written_up_to_pricing \<Longrightarrow>
   (s, p, ob) \<in> store (snd (ensureProductMeta e product st)) \<longleftrightarrow> (s, p, ob) \<in> store st"
  by (simp add: ensureProductMeta_def uuid_def Let_def written_up_to_pricing_def split: prod.splits)

lemma ensureBaseProductInfo_frame:
  "p \<notin> set written_up_to_pricing \<Longrightarrow>
   (s, p, ob) \<in> store (ensureBaseProductInfo product productUri st) \<longleftrightarrow> (s, p, ob) \<in> store st"
  by (simp add: ensureBaseProductInfo_def written_up_to_pricing_def)

lemma ensureProductJobConnection_frame:
  "p \<notin> set written_up_to_pricing \<Longrightarrow>
   (s, p, ob) \<in> store (ensureProductJobConnection productUri jobUri st) \<longleftrightarrow> (s, p, ob) \<in> store st"
  by (simp add: ensureProductJobConnection_def written_up_to_pricing_def)

lemma ensureProductDefaultPricing_Inl:
  assumes "ensureProductDefaultPricing e product productUri st = (Inl err, st')"
  shows "convertLfwUnitToCEFACT
           (unitOfMeasurement (measurementUnitPrice (consumerPrice (pricing product)))) = Inl err \<and>
         st' = snd (ensureTargetUnitResource e productUri
                      (snd (ensureSingleUnitPriceResource e productUri st)))"
  using assms
  by (auto simp: ensureProductDefaultPricing_def Let_def split: prod.splits sum.splits)

lemma ensureProductDefaultPricing_Inr:
  assumes "ensureProductDefaultPricing e product productUri st = (Inr x, st')"
  shows "\<exists>c. convertLfwUnitToCEFACT
           (unitOfMeasurement (measurementUnitPrice (consumerPrice (pricing product)))) = Inr c"
  using assms
  by (auto simp: ensureProductDefaultPricing_def Let_def split: prod.splits sum.splits)

lemma ensureProductOffers_Inl:
  assumes "ensureProductOffers e product productUri st = (Inl err, st')"
  shows "convertLfwUnitToCEFACT
           (unitOfMeasurement (measurementUnitPrice (consumerPrice (pricing product)))) = Inl err"
  using assms
  by (auto simp: ensureProductOffers_def Let_def split: prod.splits sum.splits)

lemma downloadShareFile_Inl:
  "downloadShareFile e url filename st = (Inl err, st') \<Longrightarrow> err = FetchFailed url"
  by (auto simp: downloadShareFile_def Let_def split: if_splits)

lemma ensureProductPicture_Inl:
  assumes "ensureProductPicture e product productUri st = (Inl err, st')"
  shows "\<forall>u. err \<noteq> CouldNotTranslateUnit u"
  using assms
  by (auto simp: ensureProductPicture_def Let_def uuid_def new_Date_def
      split: prod.splits sum.splits if_splits option.splits dest!: downloadShareFile_Inl)

lemma loadProduct_unit_error:
  assumes "loadProduct e listed opts st = (Inl (CouldNotTranslateUnit u), st')"
  shows "\<exists>product. (if external opts then productPage e (product_id listed) else Some listed) = Some product \<and>
           \<not> ignored (product_supplier product) \<and>
           (let (meta, st1) = ensureProductMeta e product st;
                st2 = (if truthy (job opts)
                       then ensureProductJobConnection (meta_productUri meta) (or_empty (job opts)) st1
                       else st1);
                st3 = ensureBaseProductInfo product (meta_productUri meta) st2
            in st' = snd (ensureTargetUnitResource e (meta_productUri meta)
                      (snd (ensureSingleUnitPriceResource e (meta_productUri meta) st3))))"
proof (cases "if external opts then productPage e (product_id listed) else Some listed")
  case None
  then show ?thesis using assms by (simp add: loadProduct_def)
next
  case (Some product)
  obtain meta st1 where m: "ensureProductMeta e product st = (meta, st1)"
    by (cases "ensureProductMeta e product st")
  show ?thesis
  proof (cases "ignored (product_supplier product)")
    case True
    then show ?thesis using assms Some m by (simp add: loadProduct_def)
  next
    case False
    let ?st2 = "(if truthy (job opts)
                       then ensureProductJobConnection (meta_productUri meta) (or_empty (job opts)) st1
                       else st1)"
    let ?st3 = "ensureBaseProductInfo product (meta_productUri meta) ?st2"
    obtain r4 st4 where p: "ensureProductDefaultPricing e product (meta_productUri meta) ?st3 = (r4, st4)"
      by (cases "ensureProductDefaultPricing e product (meta_productUri meta) ?st3")
    show ?thesis
    proof (cases r4)
      case (Inl err)
      then have "err = CouldNotTranslateUnit u" "st4 = st'"
        using assms Some m False p by (simp_all add: loadProduct_def Let_def)
      then show ?thesis
        using ensureProductDefaultPricing_Inl[of e product "meta_productUri meta" ?st3 err st4] p Inl Some m False
        by (simp add: Let_def)
    next
      case (Inr x)
      then obtain c where c: "convertLfwUnitToCEFACT
           (unitOfMeasurement (measurementUnitPrice (consumerPrice (pricing product)))) = Inr c"
        using ensureProductDefaultPricing_Inr p by blast
      obtain r5 st5 where o: "ensureProductOffers e product (meta_productUri meta) st4 = (r5, st5)"
        by (cases "ensureProductOffers e product (meta_productUri meta) st4")
      have r5: "\<exists>y. r5 = Inr y"
        using ensureProductOffers_Inl[of e product "meta_productUri meta" st4 _ st5] o c
        by (cases r5) auto
      then obtain y where y: "r5 = Inr y" by blast
      let ?st7 = "ensureProductAllergens e product (meta_productUri meta)
                    (ensureProductIngredients e product (meta_productUri meta) st5)"
      obtain r8 st8 where pic: "ensureProductPicture e product (meta_productUri meta) ?st7 = (r8, st8)"
        by (cases "ensureProductPicture e product (meta_productUri meta) ?st7")
      have False
        using assms Some m False p Inr o y pic ensureProductPicture_Inl[of e product "meta_productUri meta" ?st7 _ st8]
        by (cases r8) (auto simp: loadProduct_def Let_def split: supplier.splits)
      then show ?thesis ..
    qed
  qed
qed

lemma ensureProductMeta_mono:
  "t \<in> store st \<Longrightarrow> t \<in> store (snd (ensureProductMeta e product st))"
  by (simp add: ensureProductMeta_def uuid_def Let_def split: prod.splits)

lemma ensureProductMeta_link_frame:
  "p = ''veeakker:singleUnitPrice'' \<or> p = ''veeakker:targetUnit'' \<Longrightarrow>
   (s, p, ob) \<in> store (snd (ensureProductMeta e product st)) \<longleftrightarrow> (s, p, ob) \<in> store st"
  by (auto simp: ensureProductMeta_def uuid_def Let_def split: prod.splits)

lemma ensureBaseProductInfo_resource_frame:
  "p \<in> set resource_predicates \<Longrightarrow>
   (s, p, ob) \<in> store (ensureBaseProductInfo product productUri st) \<longleftrightarrow> (s, p, ob) \<in> store st"
  unfolding resource_predicates_def
  by (simp add: ensureBaseProductInfo_def, elim disjE; simp)

lemma ensureProductJobConnection_resource_frame:
  "p \<in> set resource_predicates \<Longrightarrow>
   (s, p, ob) \<in> store (ensureProductJobConnection productUri jobUri st) \<longleftrightarrow> (s, p, ob) \<in> store st"
  unfolding resource_predicates_def
  by (simp add: ensureProductJobConnection_def, elim disjE; simp)

lemma ensureResource_new_link:
  assumes "(s, p, ob) \<in> store (snd (ensureResource e ownerUri relation prefix rdfType st))"
    and "(s, p, ob) \<notin> store st" and "p \<noteq> ''rdf:type''" and "p \<noteq> ''mu:uuid''"
  shows "p = relation \<and> s = ownerUri \<and> objects (store st) ownerUri relation = {}"
proof (cases "objects (store st) ownerUri relation = {}")
  case False
  then have "snd (ensureResource e ownerUri relation prefix rdfType st) = st"
    by (simp add: ensureResource_def)
  then show ?thesis using assms(1,2) by simp
next
  case True
  then have "store (snd (ensureResource e ownerUri relation prefix rdfType st)) =
      store st \<union> {(ownerUri, relation, sparqlEscapeUri (prefix @ string_of_nat (next_uuid st))),
                   (prefix @ string_of_nat (next_uuid st), ''rdf:type'', Uri rdfType),
                   (prefix @ string_of_nat (next_uuid st), ''mu:uuid'',
                      sparqlEscapeString (string_of_nat (next_uuid st)))}"
    by (simp add: ensureResource_def uuid_def Let_def)
  then have "(s, p, ob) = (ownerUri, relation, sparqlEscapeUri (prefix @ string_of_nat (next_uuid st)))"
    using assms by auto
  then show ?thesis using True by simp
qed

lemma objects_empty [simp]: "objects {} s p = {}"
  by (simp add: objects_def)

lemma objects_insert:
  "objects (insert t g) s p =
     (if fst t = s \<and> fst (snd t) = p then insert (snd (snd t)) (objects g s p) else objects g s p)"
  by (auto simp: objects_def)

lemma loadProduct_unit_fails:
  assumes "(if external opts then productPage e (product_id listed) else Some listed) = Some product"
    and "\<not> ignored (product_supplier product)"
    and "convertLfwUnitToCEFACT
           (unitOfMeasurement (measurementUnitPrice (consumerPrice (pricing product)))) = Inl err"
  shows "fst (loadProduct e listed opts st) = Inl err"
  using assms
  by (simp add: loadProduct_def ensureProductDefaultPricing_def Let_def split: prod.splits)


text \<open>Unfolding the program on the example inputs.\<close>

lemmas eval_defs =
  loadProduct_def ensureProductMeta_def ensureBaseProductInfo_def ensureProductDefaultPricing_def
  ensureSingleUnitPriceResource_def ensureTargetUnitResource_def ensureResource_def
  uuid_def Let_def example_env_def example_product_def example_pricing_def empty_state_def
  convertLfwUnitToCEFACT_def ignored_def IGNORED_ORGANIZATIONS_def truthy_def or_empty_def
  sparqlEscapeUri_def sparqlEscapeString_def sparqlEscapeDecimal_def sparqlEscapeBool_def
  objects_eq_empty_iff digit_def

lemmas eval_defs2 =
  ensureProductOffers_def ensureOfferingResources_def ensureOffering_def
  ensureOfferingTypeAndQuantity_def ensureOfferingUnitPrice_def
  ensureProductIngredients_def ensureProductAllergens_def ensureProductPicture_def
  currentPictureIsCorrect_def loadProductSupplier_def pintafish_def
  match_tail_def new_Date_def downloadShareFile_def remove_old_picture_iff

lemmas eval_picture =
  ensureProductPicture_def currentPictureIsCorrect_def match_tail_def new_Date_def uuid_def
  downloadShareFile_def remove_old_picture_iff pictured_state_def example_env_def
  example_product_def truthy_def or_empty_def Let_def sparqlEscapeUri_def sparqlEscapeString_def
  digit_def

lemma currentPictureIsCorrect_iff:
  "currentPictureIsCorrect g productUri img \<longleftrightarrow>
     truthy img \<and>
     (\<exists>pic. (productUri, ''veeakker:thumbnail'', Uri pic) \<in> g \<and>
            (pic, ''dct:source'', sparqlEscapeUri (or_empty img)) \<in> g)"
proof -
  have "(\<exists>picture \<in> objects g productUri ''veeakker:thumbnail''.
         case picture of
           Uri pic \<Rightarrow> (pic, ''dct:source'', sparqlEscapeUri (or_empty img)) \<in> g
         | _ \<Rightarrow> False) \<longleftrightarrow>
       (\<exists>pic. (productUri, ''veeakker:thumbnail'', Uri pic) \<in> g \<and>
            (pic, ''dct:source'', sparqlEscapeUri (or_empty img)) \<in> g)" (is "?L \<longleftrightarrow> ?R")
  proof
    assume ?L
    then obtain picture where p: "(productUri, ''veeakker:thumbnail'', picture) \<in> g"
        "case picture of
           Uri pic \<Rightarrow> (pic, ''dct:source'', sparqlEscapeUri (or_empty img)) \<in> g
         | _ \<Rightarrow> False" by auto
    then show ?R by (cases picture) auto
  next
    assume ?R
    then obtain pic where "(productUri, ''veeakker:thumbnail'', Uri pic) \<in> g"
        "(pic, ''dct:source'', sparqlEscapeUri (or_empty img)) \<in> g" by blast
    then show ?L by (intro bexI[of _ "Uri pic"]) simp_all
  qed
  then show ?thesis unfolding currentPictureIsCorrect_def by simp
qed

lemma product_bindings_none:
  "\<forall>s ob. (s, ''adms:identifier'', ob) \<notin> g \<Longrightarrow> product_bindings g n = {}"
  by (auto simp: product_bindings_def)

lemmas eval_defs3 =
  ensureProductOffers_def ensureOfferingResources_def ensureOffering_def
  ensureOfferingTypeAndQuantity_def ensureOfferingUnitPrice_def
  ensureProductIngredients_def ensureProductAllergens_def ensureProductPicture_def
  currentPictureIsCorrect_iff loadProductSupplier_def
  match_tail_def new_Date_def downloadShareFile_def remove_old_picture_iff

text \<open>
  An image whose extension \<open>mime.getType\<close> does not know: \<open>ensureProductPicture\<close> throws
  after the old picture was removed and the file was downloaded, and the new picture is
  not inserted.
\<close>

lemma ensureProductPicture_unknown_mime:
  assumes "\<not> currentPictureIsCorrect (store st) productUri (product_image product)"
    and "truthy (product_image product)"
    and "match_tail (\<lambda>c. c \<noteq> CHR ''.'') (or_empty (product_image product)) = Some extension"
    and "match_tail (\<lambda>c. c \<noteq> CHR ''/'' \<and> c \<noteq> CHR ''>'') (or_empty (product_image product)) =
           Some fileName"
    and "fetch_ok e (or_empty (product_image product))"
    and "mime_getType e (''/share/'' @ string_of_nat (next_uuid st) @ ''.'' @ extension) = None"
  shows "fst (ensureProductPicture e product productUri st) = Inl (EscapeOfNull ''mimetype'') \<and>
         store (snd (ensureProductPicture e product productUri st)) =
           remove_old_picture productUri (store st) \<and>
         downloads (snd (ensureProductPicture e product productUri st)) =
           downloads st @
             [(or_empty (product_image product), string_of_nat (next_uuid st) @ ''.'' @ extension)]"
  using assms
  by (simp add: ensureProductPicture_def Let_def uuid_def new_Date_def downloadShareFile_def)


section \<open>Unit conversion\<close>

text \<open>
  C8. The unit converter returns \<open>KGM\<close> for \<open>kg\<close>, \<open>LTR\<close> for \<open>l\<close> and \<open>C62\<close> for
  \<open>stk\<close>, and for every other string it throws: the result is an error, never a
  default value.
\<close>

theorem convertLfwUnitToCEFACT_total_fatal:
  "convertLfwUnitToCEFACT ''kg'' = Inr ''KGM'' \<and>
   convertLfwUnitToCEFACT ''l'' = Inr ''LTR'' \<and>
   convertLfwUnitToCEFACT ''stk'' = Inr ''C62'' \<and>
   (\<forall>unit. unit \<notin> {''l'', ''kg'', ''stk''} \<longrightarrow>
      convertLfwUnitToCEFACT unit = Inl (CouldNotTranslateUnit unit))"
  by (simp add: convertLfwUnitToCEFACT_def)

theorem convertLfwUnitToCEFACT_total_fatal_witness:
  "''lb'' \<notin> {''l'', ''kg'', ''stk''} \<and>
   convertLfwUnitToCEFACT ''lb'' = Inl (CouldNotTranslateUnit ''lb'') \<and>
   convertLfwUnitToCEFACT ''kg'' = Inr ''KGM''"
  using convertLfwUnitToCEFACT_total_fatal by simp

section \<open>Job status\<close>

text \<open>
  C10. After \<open>startJob\<close>, \<open>finishJob\<close> or \<open>errorJob\<close> the job node carries exactly one
  \<open>adms:status\<close> triple, the one the operation inserts: every status that was there
  before, a terminal one included, is deleted first. The operations do not keep a
  terminal status.
\<close>

theorem job_status_single:
  "objects (store (startJob jobUri st)) jobUri ''adms:status'' =
     {Uri ''http://veeakker.be/lfw-job-statusses/running''} \<and>
   objects (store (finishJob jobUri st)) jobUri ''adms:status'' =
     {Uri ''http://veeakker.be/lfw-job-statusses/finished''} \<and>
   objects (store (errorJob jobUri st)) jobUri ''adms:status'' =
     {Uri ''http://veeakker.be/lfw-job-statusses/error''}"
  by (auto simp: startJob_def finishJob_def errorJob_def)


section \<open>Ingredients\<close>

text \<open>
  C6. When the payload has no \<open>ingredients\<close> field, \<open>ensureProductIngredients\<close> deletes
  the product's stored \<open>food:ingredientListAsText\<close> and inserts nothing: the store after
  is the store before without those triples, and the product has no ingredient text.
\<close>

theorem ingredients_absent_deleted:
  "ingredients product = None \<Longrightarrow>
   store (ensureProductIngredients e product productUri st) =
     delete_props productUri [''food:ingredientListAsText''] (store st) \<and>
   objects (store (ensureProductIngredients e product productUri st)) productUri
     ''food:ingredientListAsText'' = {}"
  by (auto simp: ensureProductIngredients_def truthy_def)


theorem ingredients_absent_deleted_witness:
  "ingredients (example_product ''kg'' (SupplierName ''Het Nijswolkje'') None) = None \<and>
   objects
     (store (ensureProductIngredients
               (example_env (example_product ''kg'' (SupplierName ''Het Nijswolkje'') None))
               (example_product ''kg'' (SupplierName ''Het Nijswolkje'') None)
               ''http://veeakker.be/products/0''
               (empty_state\<lparr>store :=
                  {(''http://veeakker.be/products/0'', ''food:ingredientListAsText'',
                    Str ''<ul></ul>'')}\<rparr>)))
     ''http://veeakker.be/products/0'' ''food:ingredientListAsText'' = {}"
proof -
  have i: "ingredients (example_product ''kg'' (SupplierName ''Het Nijswolkje'') None) = None"
    by (simp add: example_product_def)
  show ?thesis
    using ingredients_absent_deleted[OF i] i by blast
qed

section \<open>Default pricing\<close>

text \<open>
  C9. The delete of \<open>ensureProductDefaultPricing\<close> names \<open>gr:hascurrencyValue\<close>, not
  \<open>gr:hasCurrencyValue\<close>: when the single-unit-price node carries a
  \<open>gr:hasCurrencyValue\<close> and the payload has another amount, the run (with a unit that
  converts) leaves the old value in place beside the new one.
\<close>

theorem default_pricing_keeps_old_currency_value:
  assumes "convertLfwUnitToCEFACT
             (unitOfMeasurement (measurementUnitPrice (consumerPrice (pricing product)))) = Inr cefact"
    and "s = fst (ensureSingleUnitPriceResource e productUri st)"
    and "(s, ''gr:hasCurrencyValue'', sparqlEscapeDecimal old) \<in> store st"
    and "old \<noteq> amount (money (measurementUnitPrice (consumerPrice (pricing product))))"
  shows "fst (ensureProductDefaultPricing e product productUri st) = Inr () \<and>
         {sparqlEscapeDecimal old,
          sparqlEscapeDecimal (amount (money (measurementUnitPrice (consumerPrice (pricing product)))))}
           \<subseteq> objects (store (snd (ensureProductDefaultPricing e product productUri st))) s
               ''gr:hasCurrencyValue''"
proof -
  obtain s1 st1 where r1: "ensureSingleUnitPriceResource e productUri st = (s1, st1)"
    by (cases "ensureSingleUnitPriceResource e productUri st")
  obtain s2 st2 where r2: "ensureTargetUnitResource e productUri st1 = (s2, st2)"
    by (cases "ensureTargetUnitResource e productUri st1")
  have m1: "(s, ''gr:hasCurrencyValue'', sparqlEscapeDecimal old) \<in> store st1"
    using ensureResource_mono[of _ st e productUri] assms(3) r1
    by (metis ensureSingleUnitPriceResource_def snd_conv)
  have m2: "(s, ''gr:hasCurrencyValue'', sparqlEscapeDecimal old) \<in> store st2"
    using ensureResource_mono[of _ st1 e productUri] m1 r2
    by (metis ensureTargetUnitResource_def snd_conv)
  have s1: "s1 = s" using assms(2) r1 by simp
  show ?thesis
    using assms(1) m2 s1
    by (simp add: ensureProductDefaultPricing_def r1 r2 Let_def)
qed


theorem default_pricing_keeps_old_currency_value_witness:
  "convertLfwUnitToCEFACT ''kg'' = Inr ''KGM'' \<and>
   fst (ensureSingleUnitPriceResource
          (example_env (example_product ''kg'' (SupplierName ''Het Nijswolkje'') None))
          ''http://veeakker.be/products/0'' priced_state)
     = ''http://veeakker.be/price-specifications/2'' \<and>
   ''9.99'' \<noteq> ''10.37'' \<and>
   {Typed ''9.99'' XDecimal, Typed ''10.37'' XDecimal}
     \<subseteq> objects
         (store (snd (ensureProductDefaultPricing
                        (example_env (example_product ''kg'' (SupplierName ''Het Nijswolkje'') None))
                        (example_product ''kg'' (SupplierName ''Het Nijswolkje'') None)
                        ''http://veeakker.be/products/0'' priced_state)))
         ''http://veeakker.be/price-specifications/2'' ''gr:hasCurrencyValue''"
proof -
  let ?e = "example_env (example_product ''kg'' (SupplierName ''Het Nijswolkje'') None)"
  let ?p = "example_product ''kg'' (SupplierName ''Het Nijswolkje'') None"
  have c: "convertLfwUnitToCEFACT
             (unitOfMeasurement (measurementUnitPrice (consumerPrice (pricing ?p)))) = Inr ''KGM''"
    by (simp add: example_product_def example_pricing_def convertLfwUnitToCEFACT_def)
  have s: "''http://veeakker.be/price-specifications/2'' =
             fst (ensureSingleUnitPriceResource ?e ''http://veeakker.be/products/0'' priced_state)"
    by (simp add: ensureSingleUnitPriceResource_def ensureResource_def priced_state_def
        example_env_def objects_insert)
  have m: "(''http://veeakker.be/price-specifications/2'', ''gr:hasCurrencyValue'',
              sparqlEscapeDecimal ''9.99'') \<in> store priced_state"
    by (simp add: priced_state_def sparqlEscapeDecimal_def)
  have d: "''9.99'' \<noteq> amount (money (measurementUnitPrice (consumerPrice (pricing ?p))))"
    by (simp add: example_product_def example_pricing_def)
  show ?thesis
    using default_pricing_keeps_old_currency_value[OF c s m d] s
    by (simp add: sparqlEscapeDecimal_def example_product_def example_pricing_def
        convertLfwUnitToCEFACT_def)
qed

section \<open>Stable identity\<close>




section \<open>Job lifecycle\<close>

text \<open>
  C7. When loading the suppliers or loading the pages (so any product in them) throws
  after the job was started, the harvest answers 500 and the job's status is exactly
  \<open>error\<close>: not \<open>finished\<close>, not \<open>running\<close>, not unset. \<open>errorJob\<close> is the last thing
  the harvest does to the store. For payloads as the source's typedefs declare them, the
  throws are those of the fetches (suppliers, page, product, image), of the unit
  converter, of the two regular expressions on the image URL and of the escape of an
  unknown mime type; the example is a product whose image has an unknown extension.
\<close>

theorem harvest_throw_sets_error:
  assumes "isAdminUser (store st) sessionId"
    and "createLoadJob st = (jobUri, st1)"
    and "loadSuppliers e (startJob jobUri st1) = (Inl err, st2) \<or>
         (\<exists>st'. loadSuppliers e (startJob jobUri st1) = (Inr (), st') \<and>
                loadPages e (Some jobUri) st' = Some (Inl err, st2))"
  shows "\<exists>st3. harvest e sessionId st = Some (Response 500 ''Failed to harvest'', st3) \<and>
           objects (store st3) jobUri ''adms:status'' =
             {Uri ''http://veeakker.be/lfw-job-statusses/error''}"
proof -
  have "harvest_try e jobUri st1 = Some (Inl err, st2)"
    using assms(3) by (auto simp: harvest_try_def)
  then have "harvest e sessionId st = Some (Response 500 ''Failed to harvest'', errorJob jobUri st2)"
    using assms(1,2) by (simp add: harvest_def)
  moreover have "objects (store (errorJob jobUri st2)) jobUri ''adms:status'' =
             {Uri ''http://veeakker.be/lfw-job-statusses/error''}"
    by (auto simp: errorJob_def)
  ultimately show ?thesis by blast
qed


theorem harvest_throw_sets_error_witness:
  "isAdminUser (store admin_state) ''http://mu.semte.ch/sessions/1'' \<and>
   fst (createLoadJob admin_state) = ''http://veeakker.be/lfw-jobs/0'' \<and>
   (\<exists>st3. harvest (example_env (example_product ''kg'' (SupplierName ''Het Nijswolkje'')
                                   (Some ''https://img.example/181/new.xyz'')))
            ''http://mu.semte.ch/sessions/1'' admin_state =
              Some (Response 500 ''Failed to harvest'', st3) \<and>
          objects (store st3) ''http://veeakker.be/lfw-jobs/0'' ''adms:status'' =
            {Uri ''http://veeakker.be/lfw-job-statusses/error''})"
proof -
  let ?p = "example_product ''kg'' (SupplierName ''Het Nijswolkje'')
              (Some ''https://img.example/181/new.xyz'')"
  let ?e = "example_env ?p"
  let ?j = "''http://veeakker.be/lfw-jobs/0''"
  let ?st1 = "snd (createLoadJob admin_state)"
  let ?st' = "snd (loadSuppliers ?e (startJob ?j ?st1))"
  let ?opts = "\<lparr>external = True, job = Some ?j\<rparr>"
  have a: "isAdminUser (store admin_state) ''http://mu.semte.ch/sessions/1''"
    by (simp add: isAdminUser_def admin_state_def)
  have j: "fst (createLoadJob admin_state) = ?j"
    by (simp add: createLoadJob_def uuid_def new_Date_def admin_state_def digit_def Let_def)
  then have c: "createLoadJob admin_state = (?j, ?st1)"
    by (metis prod.collapse)
  have s: "loadSuppliers ?e (startJob ?j ?st1) = (Inr (), ?st')"
    by (simp add: loadSuppliers_def example_env_def Let_def)
  have f: "fst (loadProduct ?e ?p ?opts ?st') = Inl (EscapeOfNull ''mimetype'')"
    by (simp add: eval_defs eval_defs3 loadSuppliers_def startJob_def createLoadJob_def
        admin_state_def updateSupplierNames_def ensureProductJobConnection_def
        product_bindings_none sparqlEscapeDateTime_def)
  then obtain st2 where l: "loadProduct ?e ?p ?opts ?st' = (Inl (EscapeOfNull ''mimetype''), st2)"
    by (metis prod.collapse)
  have pg: "catalogPage ?e 0 = Some \<lparr>content = [?p], last_page = True\<rparr>"
    by (simp add: example_env_def)
  have "loadPages ?e (Some ?j) ?st' = Some (Inl (EscapeOfNull ''mimetype''), st2)"
    unfolding loadPages_def
    by (subst loadPagesFrom.simps) (simp add: pg l)
  then have t: "loadSuppliers ?e (startJob ?j ?st1) = (Inl (EscapeOfNull ''mimetype''), st2) \<or>
         (\<exists>st'. loadSuppliers ?e (startJob ?j ?st1) = (Inr (), st') \<and>
                loadPages ?e (Some ?j) st' = Some (Inl (EscapeOfNull ''mimetype''), st2))"
    using s by blast
  show ?thesis
    using harvest_throw_sets_error[OF a c t] a j by blast
qed

section \<open>Unit conversion failure inside a product\<close>

lemma loadProduct_unit_fails_state:
  assumes "(if external opts then productPage e (product_id listed) else Some listed) = Some product"
    and "\<not> ignored (product_supplier product)"
    and "convertLfwUnitToCEFACT
           (unitOfMeasurement (measurementUnitPrice (consumerPrice (pricing product)))) = Inl err"
    and "ensureProductMeta e product st = (meta, st1)"
  shows "snd (loadProduct e listed opts st) =
           snd (ensureTargetUnitResource e (meta_productUri meta)
                  (snd (ensureSingleUnitPriceResource e (meta_productUri meta)
                          (ensureBaseProductInfo product (meta_productUri meta)
                             (if truthy (job opts)
                              then ensureProductJobConnection (meta_productUri meta)
                                     (or_empty (job opts)) st1
                              else st1)))))"
  using assms
  by (simp add: loadProduct_def ensureProductDefaultPricing_def Let_def split: prod.splits)

lemma minted_fromI:
  "prefix \<in> set [''http://veeakker.be/products/'', ''http://data.redpencil.io/identifiers/'',
                      ''http://veeakker.be/price-specifications/'',
                      ''http://veeakker.be/quantitative-values/''] \<Longrightarrow> n \<le> k \<Longrightarrow>
   prefix @ string_of_nat k \<in> minted_from n"
  unfolding minted_from_def by blast

lemma ensureResource_counter:
  "next_uuid st \<le> next_uuid (snd (ensureResource e ownerUri relation prefix rdfType st))"
  by (simp add: ensureResource_def uuid_def Let_def)

lemma ensureProductMeta_counter:
  "next_uuid st \<le> next_uuid (snd (ensureProductMeta e product st))"
  by (simp add: ensureProductMeta_def uuid_def Let_def)

lemma ensureResource_new_node:
  assumes "(s, p, ob) \<in> store (snd (ensureResource e ownerUri relation prefix rdfType st))"
    and "(s, p, ob) \<notin> store st" and "p \<noteq> relation"
  shows "s = prefix @ string_of_nat (next_uuid st)"
proof (cases "objects (store st) ownerUri relation = {}")
  case False
  then have "snd (ensureResource e ownerUri relation prefix rdfType st) = st"
    by (simp add: ensureResource_def)
  then show ?thesis using assms(1,2) by simp
next
  case True
  then have "store (snd (ensureResource e ownerUri relation prefix rdfType st)) =
      store st \<union> {(ownerUri, relation, sparqlEscapeUri (prefix @ string_of_nat (next_uuid st))),
                   (prefix @ string_of_nat (next_uuid st), ''rdf:type'', Uri rdfType),
                   (prefix @ string_of_nat (next_uuid st), ''mu:uuid'',
                      sparqlEscapeString (string_of_nat (next_uuid st)))}"
    by (simp add: ensureResource_def uuid_def Let_def)
  then show ?thesis using assms by auto
qed

lemma ensureProductMeta_new_node:
  assumes "(s, p, ob) \<in> store (snd (ensureProductMeta e product st))"
    and "(s, p, ob) \<notin> store st"
  shows "s = ''http://veeakker.be/products/'' @ string_of_nat (next_uuid st) \<or>
         s = ''http://data.redpencil.io/identifiers/'' @ string_of_nat (Suc (next_uuid st))"
proof (cases "product_bindings (store st) (string_of_nat (product_id product)) = {}")
  case False
  then have "snd (ensureProductMeta e product st) = st"
    by (simp add: ensureProductMeta_def Let_def)
  then show ?thesis using assms by simp
next
  case True
  then have "store (snd (ensureProductMeta e product st)) =
      store st \<union>
        set [(''http://veeakker.be/products/'' @ string_of_nat (next_uuid st), ''rdf:type'', Uri ''schema:Product''),
             (''http://veeakker.be/products/'' @ string_of_nat (next_uuid st), ''mu:uuid'',
                sparqlEscapeString (string_of_nat (next_uuid st))),
             (''http://veeakker.be/products/'' @ string_of_nat (next_uuid st), ''adms:identifier'',
                sparqlEscapeUri (''http://data.redpencil.io/identifiers/'' @ string_of_nat (Suc (next_uuid st)))),
             (''http://data.redpencil.io/identifiers/'' @ string_of_nat (Suc (next_uuid st)), ''rdf:type'',
                Uri ''adms:Identifier''),
             (''http://data.redpencil.io/identifiers/'' @ string_of_nat (Suc (next_uuid st)), ''mu:uuid'',
                sparqlEscapeString (string_of_nat (Suc (next_uuid st)))),
             (''http://data.redpencil.io/identifiers/'' @ string_of_nat (Suc (next_uuid st)), ''skos:notation'',
                sparqlEscapeString (string_of_nat (product_id product))),
             (''http://data.redpencil.io/identifiers/'' @ string_of_nat (Suc (next_uuid st)), ''dct:creator'',
                Uri ''https://localfoodworks.eu/''),
             (''http://data.redpencil.io/identifiers/'' @ string_of_nat (Suc (next_uuid st)), ''dct:title'',
                sparqlEscapeString (''LFW '' @ string_of_nat (product_id product)))]"
    by (simp add: ensureProductMeta_def uuid_def Let_def del: append.simps)
  then have "(s, p, ob) \<in> set [(''http://veeakker.be/products/'' @ string_of_nat (next_uuid st), ''rdf:type'', Uri ''schema:Product''),
             (''http://veeakker.be/products/'' @ string_of_nat (next_uuid st), ''mu:uuid'',
                sparqlEscapeString (string_of_nat (next_uuid st))),
             (''http://veeakker.be/products/'' @ string_of_nat (next_uuid st), ''adms:identifier'',
                sparqlEscapeUri (''http://data.redpencil.io/identifiers/'' @ string_of_nat (Suc (next_uuid st)))),
             (''http://data.redpencil.io/identifiers/'' @ string_of_nat (Suc (next_uuid st)), ''rdf:type'',
                Uri ''adms:Identifier''),
             (''http://data.redpencil.io/identifiers/'' @ string_of_nat (Suc (next_uuid st)), ''mu:uuid'',
                sparqlEscapeString (string_of_nat (Suc (next_uuid st)))),
             (''http://data.redpencil.io/identifiers/'' @ string_of_nat (Suc (next_uuid st)), ''skos:notation'',
                sparqlEscapeString (string_of_nat (product_id product))),
             (''http://data.redpencil.io/identifiers/'' @ string_of_nat (Suc (next_uuid st)), ''dct:creator'',
                Uri ''https://localfoodworks.eu/''),
             (''http://data.redpencil.io/identifiers/'' @ string_of_nat (Suc (next_uuid st)), ''dct:title'',
                sparqlEscapeString (''LFW '' @ string_of_nat (product_id product)))]"
    using assms by blast
  then show ?thesis by (simp del: append.simps) blast
qed

lemma abort_new_nodes_minted:
  assumes m: "ensureProductMeta e product st = (meta, st1)"
    and p: "p = ''rdf:type'' \<or> p = ''mu:uuid''"
    and t: "(s, p, ob) \<in> store (snd (ensureTargetUnitResource e (meta_productUri meta)
                  (snd (ensureSingleUnitPriceResource e (meta_productUri meta)
                          (ensureBaseProductInfo product (meta_productUri meta)
                             (if truthy (job opts)
                              then ensureProductJobConnection (meta_productUri meta)
                                     (or_empty (job opts)) st1
                              else st1))))))"
    and n: "(s, p, ob) \<notin> store st"
  shows "s \<in> minted_from (next_uuid st)"
proof -
  let ?u = "meta_productUri meta"
  let ?st2 = "if truthy (job opts) then ensureProductJobConnection ?u (or_empty (job opts)) st1 else st1"
  let ?st3 = "ensureBaseProductInfo product ?u ?st2"
  let ?st4 = "snd (ensureSingleUnitPriceResource e ?u ?st3)"
  let ?st5 = "snd (ensureTargetUnitResource e ?u ?st4)"
  have st1: "st1 = snd (ensureProductMeta e product st)" using m by simp
  have r: "p \<in> set resource_predicates" using p by (auto simp: resource_predicates_def)
  have c1: "next_uuid st \<le> next_uuid st1" unfolding st1 by (rule ensureProductMeta_counter)
  have c3: "next_uuid ?st3 = next_uuid st1"
    by (simp add: ensureBaseProductInfo_def ensureProductJobConnection_def)
  have c4: "next_uuid ?st3 \<le> next_uuid ?st4"
    unfolding ensureSingleUnitPriceResource_def by (rule ensureResource_counter)
  have q: "p \<noteq> ''veeakker:singleUnitPrice''" "p \<noteq> ''veeakker:targetUnit''" using p by auto
  show ?thesis
  proof (cases "(s, p, ob) \<in> store ?st4")
    case False
    have eq: "s = ''http://veeakker.be/quantitative-values/'' @ string_of_nat (next_uuid ?st4)"
      using ensureResource_new_node[OF t[unfolded ensureTargetUnitResource_def] False q(2)] .
    have k: "next_uuid st \<le> next_uuid ?st4" using c1 c3 c4 by linarith
    show ?thesis unfolding eq by (rule minted_fromI) (simp_all add: k)
  next
    case 4: True
    show ?thesis
    proof (cases "(s, p, ob) \<in> store ?st3")
      case False
      have eq: "s = ''http://veeakker.be/price-specifications/'' @ string_of_nat (next_uuid ?st3)"
        using ensureResource_new_node[OF 4[unfolded ensureSingleUnitPriceResource_def] False q(1)] .
      have k: "next_uuid st \<le> next_uuid ?st3" using c1 c3 by linarith
      show ?thesis unfolding eq by (rule minted_fromI) (simp_all add: k)
    next
      case True
      then have "(s, p, ob) \<in> store ?st2" using ensureBaseProductInfo_resource_frame[OF r] by blast
      then have "(s, p, ob) \<in> store st1" using ensureProductJobConnection_resource_frame[OF r] by (simp split: if_splits)
      then have "s = ''http://veeakker.be/products/'' @ string_of_nat (next_uuid st) \<or>
         s = ''http://data.redpencil.io/identifiers/'' @ string_of_nat (Suc (next_uuid st))"
        unfolding st1 using n by (rule ensureProductMeta_new_node)
      then show ?thesis
      proof
        assume eq: "s = ''http://veeakker.be/products/'' @ string_of_nat (next_uuid st)"
        show ?thesis unfolding eq by (rule minted_fromI) simp_all
      next
        assume eq: "s = ''http://data.redpencil.io/identifiers/'' @ string_of_nat (Suc (next_uuid st))"
        show ?thesis unfolding eq by (rule minted_fromI) simp_all
      qed
    qed
  qed
qed

lemma resource_predicates_links:
  "p = ''veeakker:singleUnitPrice'' \<or> p = ''veeakker:targetUnit'' \<Longrightarrow> p \<in> set resource_predicates"
  by (auto simp: resource_predicates_def)

text \<open>
  C2 (as amended). For a payload (the detail page when \<open>external\<close> is set, the listing
  otherwise) whose supplier is not ignored and whose unit is not one of \<open>l\<close>, \<open>kg\<close>,
  \<open>stk\<close>, \<open>loadProduct\<close> aborts with the conversion error, and by then:
  no triple with a pricing predicate (unit, currency value, value, amount, type of good)
  and no offering link, on any node, has been inserted or deleted;
  every \<open>veeakker:singleUnitPrice\<close>, \<open>veeakker:targetUnit\<close>, \<open>rdf:type\<close> and \<open>mu:uuid\<close>
  triple of the store is still there;
  a \<open>veeakker:singleUnitPrice\<close> or \<open>veeakker:targetUnit\<close> link that is new is on a
  subject that had no such link, so only the first sight of a product creates its two
  price resources;
  and an \<open>rdf:type\<close> or \<open>mu:uuid\<close> triple that is new is on a URI minted in this call.
\<close>

theorem unit_error_leaves_pricing_values:
  assumes "(if external opts then productPage e (product_id listed) else Some listed) = Some product"
    and "\<not> ignored (product_supplier product)"
    and "unitOfMeasurement (measurementUnitPrice (consumerPrice (pricing product)))
           \<notin> {''l'', ''kg'', ''stk''}"
  shows "fst (loadProduct e listed opts st) =
           Inl (CouldNotTranslateUnit
                  (unitOfMeasurement (measurementUnitPrice (consumerPrice (pricing product))))) \<and>
         (\<forall>s p ob. p \<in> set pricing_predicates \<longrightarrow>
            ((s, p, ob) \<in> store (snd (loadProduct e listed opts st)) \<longleftrightarrow> (s, p, ob) \<in> store st)) \<and>
         (\<forall>s p ob. p \<in> set resource_predicates \<longrightarrow> (s, p, ob) \<in> store st \<longrightarrow>
            (s, p, ob) \<in> store (snd (loadProduct e listed opts st))) \<and>
         (\<forall>s p ob. p = ''veeakker:singleUnitPrice'' \<or> p = ''veeakker:targetUnit'' \<longrightarrow>
            (s, p, ob) \<in> store (snd (loadProduct e listed opts st)) \<longrightarrow> (s, p, ob) \<notin> store st \<longrightarrow>
            objects (store st) s p = {}) \<and>
         (\<forall>s p ob. p = ''rdf:type'' \<or> p = ''mu:uuid'' \<longrightarrow>
            (s, p, ob) \<in> store (snd (loadProduct e listed opts st)) \<longrightarrow> (s, p, ob) \<notin> store st \<longrightarrow>
            s \<in> minted_from (next_uuid st))"
proof -
  let ?unit = "unitOfMeasurement (measurementUnitPrice (consumerPrice (pricing product)))"
  have c: "convertLfwUnitToCEFACT ?unit = Inl (CouldNotTranslateUnit ?unit)"
    using assms(3) by (simp add: convertLfwUnitToCEFACT_def)
  have f: "fst (loadProduct e listed opts st) = Inl (CouldNotTranslateUnit ?unit)"
    using loadProduct_unit_fails[OF assms(1,2) c] .
  obtain meta st1 where m: "ensureProductMeta e product st = (meta, st1)"
    by (cases "ensureProductMeta e product st")
  let ?u = "meta_productUri meta"
  let ?st2 = "if truthy (job opts) then ensureProductJobConnection ?u (or_empty (job opts)) st1 else st1"
  let ?st3 = "ensureBaseProductInfo product ?u ?st2"
  let ?st4 = "snd (ensureSingleUnitPriceResource e ?u ?st3)"
  let ?st5 = "snd (ensureTargetUnitResource e ?u ?st4)"
  have st': "snd (loadProduct e listed opts st) = ?st5"
    using loadProduct_unit_fails_state[OF assms(1,2) c m] .
  have st1: "st1 = snd (ensureProductMeta e product st)" using m by simp
  have pricing: "(s, p, ob) \<in> store ?st5 \<longleftrightarrow> (s, p, ob) \<in> store st"
    if p: "p \<in> set pricing_predicates" for s p ob
  proof -
    have w: "p \<notin> set written_up_to_pricing"
      using p by (rule pricing_predicates_not_written)
    then have q: "p \<noteq> ''veeakker:singleUnitPrice''" "p \<noteq> ''veeakker:targetUnit''"
        "p \<noteq> ''rdf:type''" "p \<noteq> ''mu:uuid''"
      by (simp_all add: written_up_to_pricing_def)
    have 1: "(s, p, ob) \<in> store st1 \<longleftrightarrow> (s, p, ob) \<in> store st"
      using ensureProductMeta_frame[OF w, of s ob e product st] m by simp
    show ?thesis
      using 1 q w
      by (simp add: ensureTargetUnitResource_def ensureSingleUnitPriceResource_def
          ensureResource_frame ensureBaseProductInfo_frame ensureProductJobConnection_frame)
  qed
  have upto3: "(s, p, ob) \<in> store ?st3 \<longleftrightarrow> (s, p, ob) \<in> store st"
    if p: "p = ''veeakker:singleUnitPrice'' \<or> p = ''veeakker:targetUnit''" for s p ob
  proof -
    have r: "p \<in> set resource_predicates" using p by (rule resource_predicates_links)
    have 1: "(s, p, ob) \<in> store st1 \<longleftrightarrow> (s, p, ob) \<in> store st"
      unfolding st1 using p by (rule ensureProductMeta_link_frame)
    have 2: "(s, p, ob) \<in> store ?st2 \<longleftrightarrow> (s, p, ob) \<in> store st1"
      using ensureProductJobConnection_resource_frame[OF r] by simp
    have 3: "(s, p, ob) \<in> store ?st3 \<longleftrightarrow> (s, p, ob) \<in> store ?st2"
      using r by (rule ensureBaseProductInfo_resource_frame)
    show ?thesis using 1 2 3 by blast
  qed
  have mono45: "t \<in> store ?st3 \<Longrightarrow> t \<in> store ?st4" "t \<in> store ?st4 \<Longrightarrow> t \<in> store ?st5" for t
    unfolding ensureSingleUnitPriceResource_def ensureTargetUnitResource_def
    by (rule ensureResource_mono, assumption)+
  have kept: "(s, p, ob) \<in> store ?st5"
    if p: "p \<in> set resource_predicates" and t: "(s, p, ob) \<in> store st" for s p ob
  proof -
    have 1: "(s, p, ob) \<in> store st1" unfolding st1 using t by (rule ensureProductMeta_mono)
    have 2: "(s, p, ob) \<in> store ?st2"
      using 1 ensureProductJobConnection_resource_frame[OF p] by simp
    have 3: "(s, p, ob) \<in> store ?st3"
      using 2 ensureBaseProductInfo_resource_frame[OF p] by blast
    show ?thesis using 3 mono45 by blast
  qed
  have new: "objects (store st) s p = {}"
    if p: "p = ''veeakker:singleUnitPrice'' \<or> p = ''veeakker:targetUnit''"
      and t: "(s, p, ob) \<in> store ?st5" and n: "(s, p, ob) \<notin> store st" for s p ob
  proof -
    have q: "p \<noteq> ''rdf:type''" "p \<noteq> ''mu:uuid''" using p by auto
    have n3: "(s, p, ob) \<notin> store ?st3" using n upto3[OF p] by blast
    have same: "objects (store ?st3) s p = objects (store st) s p"
      using upto3[OF p] by (auto simp: objects_def)
    show ?thesis
    proof (cases "(s, p, ob) \<in> store ?st4")
      case True
      have "objects (store ?st3) ?u ''veeakker:singleUnitPrice'' = {} \<and> p = ''veeakker:singleUnitPrice'' \<and> s = ?u"
        using ensureResource_new_link[OF True[unfolded ensureSingleUnitPriceResource_def] n3 q]
        by blast
      then show ?thesis using same by simp
    next
      case False
      have e: "objects (store ?st4) ?u ''veeakker:targetUnit'' = {} \<and> p = ''veeakker:targetUnit'' \<and> s = ?u"
        using ensureResource_new_link[OF t[unfolded ensureTargetUnitResource_def] False q]
        by blast
      have "objects (store ?st3) ?u ''veeakker:targetUnit'' \<subseteq> objects (store ?st4) ?u ''veeakker:targetUnit''"
        using mono45(1) by (auto simp: objects_def)
      then have "objects (store ?st3) s p = {}" using e by simp
      then show ?thesis using same by simp
    qed
  qed
  have minted: "s \<in> minted_from (next_uuid st)"
    if "p = ''rdf:type'' \<or> p = ''mu:uuid''" "(s, p, ob) \<in> store ?st5" "(s, p, ob) \<notin> store st"
    for s p ob
    using abort_new_nodes_minted[OF m that] .
  show ?thesis
    unfolding st' using f pricing kept new minted by (intro conjI allI impI) blast+
qed

theorem unit_error_leaves_pricing_values_witness:
  "productPage (example_env (example_product ''lb'' (SupplierName ''Het Nijswolkje'') None)) 181 =
     Some (example_product ''lb'' (SupplierName ''Het Nijswolkje'') None) \<and>
   \<not> ignored (SupplierName ''Het Nijswolkje'') \<and>
   ''lb'' \<notin> {''l'', ''kg'', ''stk''} \<and>
   ''gr:hasCurrencyValue'' \<in> set pricing_predicates \<and>
   fst (loadProduct (example_env (example_product ''lb'' (SupplierName ''Het Nijswolkje'') None))
         (example_product ''lb'' (SupplierName ''Het Nijswolkje'') None)
         \<lparr>external = True, job = None\<rparr>
         (empty_state\<lparr>store := {(''http://example.org/x'', ''gr:hasCurrencyValue'', Typed ''1'' XDecimal)}\<rparr>))
     = Inl (CouldNotTranslateUnit ''lb'') \<and>
   (''http://example.org/x'', ''gr:hasCurrencyValue'', Typed ''1'' XDecimal)
     \<in> store (snd (loadProduct (example_env (example_product ''lb'' (SupplierName ''Het Nijswolkje'') None))
         (example_product ''lb'' (SupplierName ''Het Nijswolkje'') None)
         \<lparr>external = True, job = None\<rparr>
         (empty_state\<lparr>store := {(''http://example.org/x'', ''gr:hasCurrencyValue'', Typed ''1'' XDecimal)}\<rparr>)))"
proof -
  let ?e = "example_env (example_product ''lb'' (SupplierName ''Het Nijswolkje'') None)"
  let ?p = "example_product ''lb'' (SupplierName ''Het Nijswolkje'') None"
  let ?opts = "\<lparr>external = True, job = None\<rparr>"
  let ?st = "empty_state\<lparr>store := {(''http://example.org/x'', ''gr:hasCurrencyValue'', Typed ''1'' XDecimal)}\<rparr>"
  have a: "(if external ?opts then productPage ?e (product_id ?p) else Some ?p) = Some ?p"
    by (simp add: example_env_def example_product_def)
  have b: "\<not> ignored (product_supplier ?p)"
    by (simp add: example_product_def ignored_def IGNORED_ORGANIZATIONS_def)
  have c: "unitOfMeasurement (measurementUnitPrice (consumerPrice (pricing ?p))) \<notin> {''l'', ''kg'', ''stk''}"
    by (simp add: example_product_def example_pricing_def)
  have u: "unitOfMeasurement (measurementUnitPrice (consumerPrice (pricing ?p))) = ''lb''"
    by (simp add: example_product_def example_pricing_def)
  have p: "''gr:hasCurrencyValue'' \<in> set pricing_predicates"
    by (simp add: pricing_predicates_def)
  have n: "\<not> ignored (SupplierName ''Het Nijswolkje'')"
    by (simp add: ignored_def IGNORED_ORGANIZATIONS_def)
  have pg: "productPage ?e 181 = Some ?p"
    by (simp add: example_env_def example_product_def)
  have m: "(''http://example.org/x'', ''gr:hasCurrencyValue'', Typed ''1'' XDecimal) \<in> store ?st"
    by simp
  note t = unit_error_leaves_pricing_values[OF a b c, of ?st]
  note t1 = conjunct1[OF t]
  note t2 = conjunct1[OF conjunct2[OF t]]
  have 1: "fst (loadProduct ?e ?p ?opts ?st) = Inl (CouldNotTranslateUnit ''lb'')"
    using t1 unfolding u .
  have 2: "(''http://example.org/x'', ''gr:hasCurrencyValue'', Typed ''1'' XDecimal)
             \<in> store (snd (loadProduct ?e ?p ?opts ?st))"
    using iffD2[OF t2[rule_format, OF p] m] .
  have c': "''lb'' \<notin> {''l'', ''kg'', ''stk''}" by simp
  show ?thesis by (intro conjI pg n c' p 1 2)
qed


text \<open>
  C2 as the claim states it fails: a first-seen product with the unit \<open>lb\<close> aborts with
  the conversion error and has by then got its \<open>veeakker:singleUnitPrice\<close> link.
\<close>

theorem unit_error_creates_price_resource:
  "fst (loadProduct (example_env (example_product ''lb'' (SupplierName ''Het Nijswolkje'') None))
         (example_product ''lb'' (SupplierName ''Het Nijswolkje'') None)
         \<lparr>external = True, job = None\<rparr> empty_state)
     = Inl (CouldNotTranslateUnit ''lb'') \<and>
   (''http://veeakker.be/products/0'', ''veeakker:singleUnitPrice'',
      Uri ''http://veeakker.be/price-specifications/2'')
     \<in> store (snd (loadProduct (example_env (example_product ''lb'' (SupplierName ''Het Nijswolkje'') None))
                   (example_product ''lb'' (SupplierName ''Het Nijswolkje'') None)
                   \<lparr>external = True, job = None\<rparr> empty_state)) \<and>
   (''http://veeakker.be/products/0'', ''veeakker:singleUnitPrice'',
      Uri ''http://veeakker.be/price-specifications/2'') \<notin> store empty_state"
  by (simp add: eval_defs)

section \<open>Supplier exclusion\<close>

text \<open>
  C3. The ignore list holds names, and \<open>loadProduct\<close> tests the payload's \<open>supplier\<close>
  against it. A listing carries the supplier as its name, so an ignored supplier's product
  loaded from the listing gets its identity and nothing else.
\<close>

lemma ignored_listing_only_identity:
  assumes "\<not> external opts" and "product_supplier listed = SupplierName n"
    and "n \<in> set IGNORED_ORGANIZATIONS"
  shows "loadProduct e listed opts st = (Inr (), snd (ensureProductMeta e listed st))"
  using assms by (simp add: loadProduct_def ignored_def Let_def split: prod.splits)

text \<open>
  C3, the detail payload. With \<open>external\<close> set the payload is the detail page, whose
  \<open>supplier\<close> is an object: it is never in the list, and the product of the ignored
  supplier is loaded in full. Here its title has been written.
\<close>

theorem ignored_supplier_detail_is_loaded:
  "fst (loadProduct (example_env (example_product ''kg'' (SupplierInfo pintafish) None))
         (example_product ''kg'' (SupplierName ''Pintafish (VLB)'') None)
         \<lparr>external = True, job = None\<rparr> empty_state) = Inr () \<and>
   (''http://veeakker.be/products/0'', ''dct:title'', Str ''5 pannenkoeken'')
     \<in> store (snd (loadProduct (example_env (example_product ''kg'' (SupplierInfo pintafish) None))
                   (example_product ''kg'' (SupplierName ''Pintafish (VLB)'') None)
                   \<lparr>external = True, job = None\<rparr> empty_state))"
  by (simp add: eval_defs eval_defs2)


section \<open>Picture\<close>

text \<open>
  C4, the unchanged picture: when the stored thumbnail's source is the payload's image
  URL, nothing is downloaded and nothing is written.
\<close>

lemma unchanged_picture_no_effect:
  "currentPictureIsCorrect (store st) productUri (product_image product) \<Longrightarrow>
   ensureProductPicture e product productUri st = (Inr (), st)"
  by (simp add: ensureProductPicture_def)

text \<open>
  C4, the changed picture. The second delete of \<open>ensureProductPicture\<close> has the template
  \<open>?file ?p ?o\<close> over a pattern that binds \<open>?s\<close>: it deletes nothing. After a change of
  the image URL the old share's triples and the thumbnail link are gone, and the old
  logical file keeps its \<open>nfo:fileName\<close>.
\<close>

theorem changed_picture_keeps_old_file_triples:
  "fst (ensureProductPicture
          (example_env (example_product ''kg'' (SupplierName ''Het Nijswolkje'')
                          (Some ''https://img.example/181/new.png'')))
          (example_product ''kg'' (SupplierName ''Het Nijswolkje'')
             (Some ''https://img.example/181/new.png''))
          ''http://veeakker.be/products/0'' pictured_state) = Inr () \<and>
   (''http://veeakker.be/files/5'', ''nfo:fileName'', Str ''old.png'')
     \<in> store (snd (ensureProductPicture
          (example_env (example_product ''kg'' (SupplierName ''Het Nijswolkje'')
                          (Some ''https://img.example/181/new.png'')))
          (example_product ''kg'' (SupplierName ''Het Nijswolkje'')
             (Some ''https://img.example/181/new.png''))
          ''http://veeakker.be/products/0'' pictured_state)) \<and>
   (''share://5.png'', ''nfo:fileName'', Str ''old.png'')
     \<notin> store (snd (ensureProductPicture
          (example_env (example_product ''kg'' (SupplierName ''Het Nijswolkje'')
                          (Some ''https://img.example/181/new.png'')))
          (example_product ''kg'' (SupplierName ''Het Nijswolkje'')
             (Some ''https://img.example/181/new.png''))
          ''http://veeakker.be/products/0'' pictured_state)) \<and>
   (''http://veeakker.be/products/0'', ''veeakker:thumbnail'', Uri ''http://veeakker.be/files/5'')
     \<notin> store (snd (ensureProductPicture
          (example_env (example_product ''kg'' (SupplierName ''Het Nijswolkje'')
                          (Some ''https://img.example/181/new.png'')))
          (example_product ''kg'' (SupplierName ''Het Nijswolkje'')
             (Some ''https://img.example/181/new.png''))
          ''http://veeakker.be/products/0'' pictured_state))"
  by (simp add: eval_picture)

end
